theory Spec2Isabelle
  imports Main "HOL-Library.List_Lexorder" "HOL-Library.Char_ord" "HOL-Library.Multiset"
    "HOL-Library.Word"
begin

section \<open>Values exchanged with the server\<close>

text \<open>
  The server of \<^verbatim>\<open>mcp_server/app.py\<close> receives \<^verbatim>\<open>Dict[str, Any]\<close> arguments decoded
  from JSON and answers with dictionaries. Such values are modelled by \<open>json\<close>; a Python
  \<^verbatim>\<open>dict\<close> is an association list read with \<open>map_of\<close>. Python integers are
  unbounded, hence \<open>int\<close>; the integers of the store are the signed 64-bit integers of
  SQLite, a \<open>64 word\<close> read with \<open>sint\<close>, and the driver refuses to bind a Python
  integer outside that range. A character of a string is a code point below 256;
  code points from 256 on are not modelled. JSON numbers with a fraction or an exponent
  (Python floats) are left out of the model. A JSON integer of a request has at most 4300
  digits, since the decoder refuses longer ones.
\<close>

type_synonym int64 = "64 word"

datatype json =
    JNull
  | JBool bool
  | JInt int
  | JStr string
  | JList "json list"
  | JObj "(string \<times> json) list"

text \<open>
  The exceptions that can leave the code: FastAPI's \<^verbatim>\<open>HTTPException\<close> (status, detail),
  the built-in errors of \<^verbatim>\<open>int()\<close>, attribute access and subscripting, and the errors
  that the statements of \<^verbatim>\<open>mcp_server/database.py\<close> can raise through \<^verbatim>\<open>sqlite3\<close>:
  a violated constraint (\<^verbatim>\<open>IntegrityError\<close>), a parameter of a type that cannot be bound
  (\<^verbatim>\<open>ProgrammingError\<close>), an integer parameter outside the 64-bit range
  (\<^verbatim>\<open>OverflowError\<close>), and a table whose keys are used up (\<^verbatim>\<open>OperationalError\<close>).
\<close>

datatype error =
    HTTPException int string
  | TypeError
  | ValueError
  | AttributeError
  | KeyError
  | IntegrityError
  | ProgrammingError
  | OverflowError
  | OperationalError

subsection \<open>Python built-ins used by the dispatcher\<close>

definition dict_get :: "(string \<times> json) list \<Rightarrow> string \<Rightarrow> json" where
  \<comment> \<open>\<^verbatim>\<open>d.get(k)\<close>: the value, or \<^verbatim>\<open>None\<close> when the key is missing\<close>
  "dict_get d k = (case map_of d k of None \<Rightarrow> JNull | Some v \<Rightarrow> v)"

definition dict_get_default :: "(string \<times> json) list \<Rightarrow> string \<Rightarrow> json \<Rightarrow> json" where
  \<comment> \<open>\<^verbatim>\<open>d.get(k, default)\<close>\<close>
  "dict_get_default d k dflt = (case map_of d k of None \<Rightarrow> dflt | Some v \<Rightarrow> v)"

definition dict_item :: "(string \<times> json) list \<Rightarrow> string \<Rightarrow> error + json" where
  \<comment> \<open>\<^verbatim>\<open>d[k]\<close>: raises \<^verbatim>\<open>KeyError\<close> when the key is missing\<close>
  "dict_item d k = (case map_of d k of None \<Rightarrow> Inl KeyError | Some v \<Rightarrow> Inr v)"

fun truthy :: "json \<Rightarrow> bool" where
  "truthy JNull = False"
| "truthy (JBool b) = b"
| "truthy (JInt n) = (n \<noteq> 0)"
| "truthy (JStr s) = (s \<noteq> [])"
| "truthy (JList xs) = (xs \<noteq> [])"
| "truthy (JObj kvs) = (kvs \<noteq> [])"

definition digit_char :: "nat \<Rightarrow> char" where
  "digit_char d = char_of (48 + d)"

fun nat_str :: "nat \<Rightarrow> string" where
  "nat_str n = (if n < 10 then [digit_char n] else nat_str (n div 10) @ [digit_char (n mod 10)])"

declare nat_str.simps [simp del]

definition int_str :: "int \<Rightarrow> string" where
  \<comment> \<open>\<^verbatim>\<open>str(n)\<close> for an integer, also SQLite's text of an integer\<close>
  "int_str i = (if i < 0 then CHR ''-'' # nat_str (nat (- i)) else nat_str (nat i))"

definition is_space :: "char \<Rightarrow> bool" where
  \<comment> \<open>the characters \<^verbatim>\<open>int()\<close> skips around a number: tab to carriage return, the space,
      and the two spaces of Latin-1, next line and no-break space\<close>
  "is_space c = (let n = (of_char c :: nat) in (9 \<le> n \<and> n \<le> 13) \<or> n = 32 \<or> n = 133 \<or> n = 160)"

definition is_digit :: "char \<Rightarrow> bool" where
  "is_digit c = (let n = (of_char c :: nat) in 48 \<le> n \<and> n \<le> 57)"

definition strip :: "string \<Rightarrow> string" where
  "strip s = rev (dropWhile is_space (rev (dropWhile is_space s)))"

fun digits_ok :: "string \<Rightarrow> bool" where
  \<comment> \<open>decimal digits, single underscores allowed between two digits\<close>
  "digits_ok [] = False"
| "digits_ok [c] = is_digit c"
| "digits_ok (c # d # cs) =
     (is_digit c \<and> (if d = CHR ''_'' then digits_ok cs else digits_ok (d # cs)))"

definition digits_val :: "string \<Rightarrow> nat" where
  "digits_val s = foldl (\<lambda>a c. 10 * a + (of_char c - 48)) 0 (filter is_digit s)"

definition int_of_str :: "string \<Rightarrow> int option" where
  \<comment> \<open>\<^verbatim>\<open>int(s)\<close> for a string in base 10: surrounding whitespace, an optional sign, then
      at most 4300 digits (the interpreter's default limit)\<close>
  "int_of_str s =
     (let t = strip s;
          neg = (t \<noteq> [] \<and> hd t = CHR ''-'');
          body = (if t \<noteq> [] \<and> (hd t = CHR ''-'' \<or> hd t = CHR ''+'') then tl t else t)
      in if digits_ok body \<and> length (filter is_digit body) \<le> 4300
         then Some (if neg then - int (digits_val body) else int (digits_val body))
         else None)"

fun py_int :: "json \<Rightarrow> error + int" where
  \<comment> \<open>\<^verbatim>\<open>int(v)\<close>\<close>
  "py_int JNull = Inl TypeError"
| "py_int (JBool b) = Inr (if b then 1 else 0)"
| "py_int (JInt n) = Inr n"
| "py_int (JStr s) = (case int_of_str s of None \<Rightarrow> Inl ValueError | Some n \<Rightarrow> Inr n)"
| "py_int (JList xs) = Inl TypeError"
| "py_int (JObj kvs) = Inl TypeError"

definition hex_char :: "nat \<Rightarrow> char" where
  "hex_char d = (if d < 10 then char_of (48 + d) else char_of (87 + d))"

definition escape_char :: "char \<Rightarrow> char \<Rightarrow> string" where
  \<comment> \<open>one character inside \<^verbatim>\<open>repr\<close> of a string delimited by the quote \<open>q\<close>; the
      characters that are not printable are written \<^verbatim>\<open>\xNN\<close>\<close>
  "escape_char q c =
     (let n = (of_char c :: nat) in
      if c = q \<or> c = CHR 0x5C then [CHR 0x5C, c]
      else if c = CHR 0x09 then [CHR 0x5C, CHR ''t'']
      else if c = CHR 0x0A then [CHR 0x5C, CHR ''n'']
      else if c = CHR 0x0D then [CHR 0x5C, CHR ''r'']
      else if n < 32 \<or> (127 \<le> n \<and> n \<le> 160) \<or> n = 173
        then [CHR 0x5C, CHR ''x'', hex_char (n div 16), hex_char (n mod 16)]
      else [c])"

definition str_repr :: "string \<Rightarrow> string" where
  "str_repr s =
     (let q = (if CHR 0x27 \<in> set s \<and> CHR 0x22 \<notin> set s then CHR 0x22 else CHR 0x27)
      in q # concat (map (escape_char q) s) @ [q])"

fun join :: "string \<Rightarrow> string list \<Rightarrow> string" where
  "join sep [] = []"
| "join sep [x] = x"
| "join sep (x # y # xs) = x @ sep @ join sep (y # xs)"

fun py_repr :: "json \<Rightarrow> string" where
  "py_repr JNull = ''None''"
| "py_repr (JBool b) = (if b then ''True'' else ''False'')"
| "py_repr (JInt n) = int_str n"
| "py_repr (JStr s) = str_repr s"
| "py_repr (JList xs) = ''['' @ join '', '' (map py_repr xs) @ '']''"
| "py_repr (JObj kvs) =
     ''{'' @ join '', '' (map (\<lambda>kv. str_repr (fst kv) @ '': '' @ py_repr (snd kv)) kvs) @ ''}''"

fun py_str :: "json \<Rightarrow> string" where
  \<comment> \<open>\<^verbatim>\<open>str(v)\<close>: a string is itself, anything else is its \<^verbatim>\<open>repr\<close>\<close>
  "py_str (JStr s) = s"
| "py_str v = py_repr v"

section \<open>The tool registry\<close>

text \<open>
  \<^verbatim>\<open>TOOL_REGISTRY\<close> of \<^verbatim>\<open>mcp_server/app.py\<close>: the name, the description and the input
  schema of each tool. A property of a schema has a type and possibly a default.
\<close>

record input_schema =
  properties :: "(string \<times> string \<times> json option) list"
  required :: "string list"

record tool_def =
  tool_name :: string
  description :: string
  schema :: input_schema

definition TOOL_REGISTRY :: "tool_def list" where
  "TOOL_REGISTRY =
    [\<lparr>tool_name = ''get_customer'',
      description = ''Retrieve a single customer using its ID.'',
      schema = \<lparr>properties = [(''customer_id'', ''integer'', None)],
                required = [''customer_id'']\<rparr>\<rparr>,
     \<lparr>tool_name = ''list_customers'',
      description = ''Return a list of customers, optionally filtered by status.'',
      schema = \<lparr>properties = [(''status'', ''string'', None), (''limit'', ''integer'', Some (JInt 20))],
                required = []\<rparr>\<rparr>,
     \<lparr>tool_name = ''update_customer'',
      description = ''Modify customer fields such as name, email, or status.'',
      schema = \<lparr>properties = [(''customer_id'', ''integer'', None), (''data'', ''object'', None)],
                required = [''customer_id'', ''data'']\<rparr>\<rparr>,
     \<lparr>tool_name = ''create_ticket'',
      description = ''Open a new support ticket for a customer.'',
      schema = \<lparr>properties = [(''customer_id'', ''integer'', None), (''issue'', ''string'', None),
                              (''priority'', ''string'', None)],
                required = [''customer_id'', ''issue'', ''priority'']\<rparr>\<rparr>,
     \<lparr>tool_name = ''get_customer_history'',
      description = ''Retrieve the interaction history for a customer.'',
      schema = \<lparr>properties = [(''customer_id'', ''integer'', None)],
                required = [''customer_id'']\<rparr>\<rparr>]"

definition registered :: "string \<Rightarrow> bool" where
  "registered tool = (tool \<in> set (map tool_name TOOL_REGISTRY))"

definition declared_properties :: "string \<Rightarrow> string list" where
  \<comment> \<open>the argument names the schema of a tool declares\<close>
  "declared_properties tool =
     concat (map (\<lambda>t. map fst (properties (schema t)))
                 (filter (\<lambda>t. tool_name t = tool) TOOL_REGISTRY))"

definition required_arguments :: "string \<Rightarrow> string list" where
  \<comment> \<open>the argument names the schema of a tool lists under \<^verbatim>\<open>required\<close>\<close>
  "required_arguments tool =
     concat (map (\<lambda>t. required (schema t)) (filter (\<lambda>t. tool_name t = tool) TOOL_REGISTRY))"

section \<open>The store\<close>

text \<open>
  The three tables read and written by \<^verbatim>\<open>mcp_server/database.py\<close>, with the columns its
  statements name. The module \<^verbatim>\<open>database_setup\<close> that creates them is not among the
  sources; the schema is taken from \<^verbatim>\<open>_SCHEMA_SQL\<close> in \<^verbatim>\<open>common/db.py\<close>, which
  declares the same tables: 64-bit integer keys, text columns that are \<^verbatim>\<open>NOT NULL\<close>, \<^verbatim>\<open>created_at\<close> filled in by
  \<^verbatim>\<open>CURRENT_TIMESTAMP\<close>, and foreign keys from tickets and interactions to customers (which
  \<^verbatim>\<open>_open_db\<close> switches on). A table is the list of its rows in scan order.
  \<open>ticket_seq\<close> is the largest ticket id handed out so far (\<^verbatim>\<open>AUTOINCREMENT\<close>), and
  \<open>clock\<close> is what \<^verbatim>\<open>CURRENT_TIMESTAMP\<close> yields. An invocation that fails leaves the store
  as it was: a statement that raises changes nothing.
\<close>

record customer =
  c_id :: int64
  c_name :: string
  c_email :: string
  c_status :: string
  c_created_at :: string

record ticket =
  t_id :: int64
  t_customer_id :: int64
  t_issue :: string
  t_priority :: string
  t_status :: string
  t_created_at :: string

record interaction =
  i_id :: int64
  i_customer_id :: int64
  i_channel :: string
  i_notes :: string
  i_created_at :: string

record database =
  customers :: "customer list"
  tickets :: "ticket list"
  interactions :: "interaction list"
  ticket_seq :: int64
  clock :: string

text \<open>\<^verbatim>\<open>dict(row)\<close> for the columns each \<^verbatim>\<open>SELECT\<close> lists, in that order.\<close>

definition customer_dict :: "customer \<Rightarrow> (string \<times> json) list" where
  "customer_dict c =
     [(''id'', JInt (sint (c_id c))), (''name'', JStr (c_name c)), (''email'', JStr (c_email c)),
      (''status'', JStr (c_status c)), (''created_at'', JStr (c_created_at c))]"

definition ticket_dict :: "ticket \<Rightarrow> (string \<times> json) list" where
  "ticket_dict t =
     [(''id'', JInt (sint (t_id t))), (''customer_id'', JInt (sint (t_customer_id t))),
      (''issue'', JStr (t_issue t)), (''priority'', JStr (t_priority t)),
      (''status'', JStr (t_status t)), (''created_at'', JStr (t_created_at t))]"

definition interaction_dict :: "interaction \<Rightarrow> (string \<times> json) list" where
  "interaction_dict i =
     [(''id'', JInt (sint (i_id i))), (''channel'', JStr (i_channel i)),
      (''notes'', JStr (i_notes i)), (''created_at'', JStr (i_created_at i))]"

subsection \<open>Binding parameters and storing text\<close>

datatype sqlval = SqlNull | SqlInt int64 | SqlText string

definition in_int64 :: "int \<Rightarrow> bool" where
  "in_int64 n = (- (2 ^ 63) \<le> n \<and> n < 2 ^ 63)"

definition bind_int :: "int \<Rightarrow> error + int64" where
  \<comment> \<open>binding a Python integer: outside the 64-bit range \<^verbatim>\<open>sqlite3\<close> raises
      \<^verbatim>\<open>OverflowError\<close>\<close>
  "bind_int n = (if in_int64 n then Inr (word_of_int n) else Inl OverflowError)"

fun bind_param :: "json \<Rightarrow> error + sqlval" where
  \<comment> \<open>what \<^verbatim>\<open>sqlite3\<close> binds for a Python value; lists and dicts cannot be bound\<close>
  "bind_param JNull = Inr SqlNull"
| "bind_param (JBool b) = Inr (SqlInt (if b then 1 else 0))"
| "bind_param (JInt n) = (case bind_int n of Inl e \<Rightarrow> Inl e | Inr w \<Rightarrow> Inr (SqlInt w))"
| "bind_param (JStr s) = Inr (SqlText s)"
| "bind_param (JList xs) = Inl ProgrammingError"
| "bind_param (JObj kvs) = Inl ProgrammingError"

fun bind_all :: "json list \<Rightarrow> error + sqlval list" where
  \<comment> \<open>the parameters are bound in order; the first that cannot be bound raises\<close>
  "bind_all [] = Inr []"
| "bind_all (v # vs) =
     (case bind_param v of
        Inl e \<Rightarrow> Inl e
      | Inr b \<Rightarrow> (case bind_all vs of Inl e \<Rightarrow> Inl e | Inr bs \<Rightarrow> Inr (b # bs)))"

fun text_affinity :: "sqlval \<Rightarrow> sqlval" where
  \<comment> \<open>a value meeting a \<^verbatim>\<open>TEXT\<close> column: an integer becomes its decimal text\<close>
  "text_affinity (SqlInt n) = SqlText (int_str (sint n))"
| "text_affinity v = v"

definition store_text :: "sqlval \<Rightarrow> error + string" where
  \<comment> \<open>storing into a \<^verbatim>\<open>TEXT NOT NULL\<close> column\<close>
  "store_text v = (case text_affinity v of SqlText s \<Rightarrow> Inr s | _ \<Rightarrow> Inl IntegrityError)"

fun store_all :: "sqlval list \<Rightarrow> error + string list" where
  "store_all [] = Inr []"
| "store_all (v # vs) =
     (case store_text v of
        Inl e \<Rightarrow> Inl e
      | Inr s \<Rightarrow> (case store_all vs of Inl e \<Rightarrow> Inl e | Inr ss \<Rightarrow> Inr (s # ss)))"

definition sql_limit :: "int \<Rightarrow> 'a list \<Rightarrow> 'a list" where
  \<comment> \<open>\<^verbatim>\<open>LIMIT n\<close>: a negative \<open>n\<close> is no limit\<close>
  "sql_limit n xs = (if n < 0 then xs else take (nat n) xs)"

subsection \<open>Query functions of \<^verbatim>\<open>mcp_server/database.py\<close>\<close>

definition get_customer :: "database \<Rightarrow> int \<Rightarrow> error + (string \<times> json) list option" where
  "get_customer d customer_id =
     (case bind_int customer_id of
        Inl e \<Rightarrow> Inl e
      | Inr key \<Rightarrow>
          (case find (\<lambda>c. c_id c = key) (customers d) of
             None \<Rightarrow> Inr None
           | Some row \<Rightarrow> Inr (Some (customer_dict row))))"

definition list_customers :: "database \<Rightarrow> json \<Rightarrow> int \<Rightarrow> error + (string \<times> json) list list" where
  \<comment> \<open>the parameters are \<^verbatim>\<open>(status, limit)\<close> with a status, \<^verbatim>\<open>(limit,)\<close> without\<close>
  "list_customers d status limit =
     (if truthy status then
        (case bind_param status of
           Inl e \<Rightarrow> Inl e
         | Inr p \<Rightarrow>
             (case bind_int limit of
                Inl e \<Rightarrow> Inl e
              | Inr n \<Rightarrow>
                  Inr (map customer_dict
                        (sql_limit (sint n)
                          (filter (\<lambda>c. SqlText (c_status c) = text_affinity p) (customers d))))))
      else
        (case bind_int limit of
           Inl e \<Rightarrow> Inl e
         | Inr n \<Rightarrow> Inr (map customer_dict (sql_limit (sint n) (customers d)))))"

definition allowed :: "string set" where
  "allowed = {''name'', ''email'', ''status''}"

definition set_column :: "customer \<Rightarrow> string \<times> string \<Rightarrow> customer" where
  \<comment> \<open>one assignment \<^verbatim>\<open>col = ?\<close> of the \<^verbatim>\<open>UPDATE\<close>\<close>
  "set_column c a =
     (if fst a = ''name'' then c\<lparr>c_name := snd a\<rparr>
      else if fst a = ''email'' then c\<lparr>c_email := snd a\<rparr>
      else if fst a = ''status'' then c\<lparr>c_status := snd a\<rparr>
      else c)"

definition modify_customer ::
  "database \<Rightarrow> int \<Rightarrow> (string \<times> json) list \<Rightarrow> (error + (string \<times> json) list option) \<times> database" where
  \<comment> \<open>the existence query binds \<^verbatim>\<open>customer_id\<close>; the \<^verbatim>\<open>UPDATE\<close> binds the values, then
      \<^verbatim>\<open>customer_id\<close> again, and only then runs into the constraints\<close>
  "modify_customer d customer_id changes =
     (let updates = filter (\<lambda>kv. fst kv \<in> allowed) changes in
      if updates = [] then (get_customer d customer_id, d)
      else
        (case bind_int customer_id of
           Inl e \<Rightarrow> (Inl e, d)
         | Inr key \<Rightarrow>
             if find (\<lambda>c. c_id c = key) (customers d) = None then (Inr None, d)
             else
               (case bind_all (map snd updates) of
                  Inl e \<Rightarrow> (Inl e, d)
                | Inr bound \<Rightarrow>
                    (case store_all bound of
                       Inl e \<Rightarrow> (Inl e, d)
                     | Inr texts \<Rightarrow>
                         (let assignments = zip (map fst updates) texts;
                              d' = d\<lparr>customers :=
                                     map (\<lambda>c. if c_id c = key then foldl set_column c assignments else c)
                                         (customers d)\<rparr>
                          in (get_customer d' customer_id, d'))))))"

definition new_ticket ::
  "database \<Rightarrow> int \<Rightarrow> string \<Rightarrow> string \<Rightarrow> (error + (string \<times> json) list) \<times> database" where
  \<comment> \<open>the new id is one more than the largest id the table has or ever had; when that is
      the largest 64-bit integer the \<^verbatim>\<open>INSERT\<close> fails, before the foreign key is checked\<close>
  "new_ticket d customer_id issue priority =
     (case bind_int customer_id of
        Inl e \<Rightarrow> (Inl e, d)
      | Inr key \<Rightarrow>
          (let next_id = fold max (map (\<lambda>t. sint (t_id t)) (tickets d)) (sint (ticket_seq d)) + 1 in
           if \<not> in_int64 next_id then (Inl OperationalError, d)
           else if key \<notin> set (map c_id (customers d)) then (Inl IntegrityError, d)
           else
             (let ticket_id = word_of_int next_id;
                  row = \<lparr>t_id = ticket_id, t_customer_id = key, t_issue = issue,
                         t_priority = priority, t_status = ''open'', t_created_at = clock d\<rparr>;
                  d' = d\<lparr>tickets := tickets d @ [row], ticket_seq := ticket_id\<rparr>
              in (case find (\<lambda>t. t_id t = ticket_id) (tickets d') of
                    None \<Rightarrow> (Inl TypeError, d')
                  | Some r \<Rightarrow> (Inr (ticket_dict r), d')))))"

definition customer_history :: "database \<Rightarrow> int \<Rightarrow> error + (string \<times> json) list list" where
  \<comment> \<open>\<^verbatim>\<open>ORDER BY created_at DESC\<close> on the rows of the customer: a stable sort, rows with
      equal \<^verbatim>\<open>created_at\<close> stay in scan order\<close>
  "customer_history d customer_id =
     (case bind_int customer_id of
        Inl e \<Rightarrow> Inl e
      | Inr key \<Rightarrow>
          Inr (map interaction_dict
                (rev (sort_key i_created_at
                       (rev (filter (\<lambda>i. i_customer_id i = key) (interactions d)))))))"

text \<open>The aliases under which \<^verbatim>\<open>mcp_server/app.py\<close> imports the query functions.\<close>

definition fetch_customer :: "database \<Rightarrow> int \<Rightarrow> error + (string \<times> json) list option" where
  "fetch_customer d customer_id = get_customer d customer_id"

definition fetch_customers :: "database \<Rightarrow> json \<Rightarrow> int \<Rightarrow> error + (string \<times> json) list list" where
  "fetch_customers d status limit = list_customers d status limit"

definition update_customer_record ::
  "database \<Rightarrow> int \<Rightarrow> (string \<times> json) list \<Rightarrow> (error + (string \<times> json) list option) \<times> database" where
  "update_customer_record d customer_id changes = modify_customer d customer_id changes"

definition create_ticket_record ::
  "database \<Rightarrow> int \<Rightarrow> string \<Rightarrow> string \<Rightarrow> (error + (string \<times> json) list) \<times> database" where
  "create_ticket_record d customer_id issue priority = new_ticket d customer_id issue priority"

definition fetch_history :: "database \<Rightarrow> int \<Rightarrow> error + (string \<times> json) list list" where
  "fetch_history d customer_id = customer_history d customer_id"

section \<open>The dispatcher\<close>

text \<open>
  The state of the server process: the store and the one central queue
  \<^verbatim>\<open>event_queue\<close> (an unbounded \<^verbatim>\<open>asyncio.Queue\<close>, oldest event first). One
  invocation is run at a time; \<^verbatim>\<open>asyncio.to_thread(f, ...)\<close> is the call of \<open>f\<close>.
\<close>

record server =
  db :: database
  event_queue :: "json list"

record ToolInvocation =
  name :: string
  arguments :: "(string \<times> json) list"

definition enqueue_event :: "json \<Rightarrow> server \<Rightarrow> server" where
  "enqueue_event payload s = s\<lparr>event_queue := event_queue s @ [payload]\<rparr>"

definition http_not_found :: "string \<Rightarrow> error + json" where
  "http_not_found message = Inl (HTTPException 404 message)"

text \<open>The five branches of \<^verbatim>\<open>call_tool\<close>, in the order of the source.\<close>

definition call_get_customer :: "(string \<times> json) list \<Rightarrow> server \<Rightarrow> (error + json) \<times> server" where
  "call_get_customer args s =
     (case py_int (dict_get args ''customer_id'') of
        Inl e \<Rightarrow> (Inl e, s)
      | Inr customer_id \<Rightarrow>
          (case fetch_customer (db s) customer_id of
             Inl e \<Rightarrow> (Inl e, s)
           | Inr None \<Rightarrow> (http_not_found ''Customer does not exist'', s)
           | Inr (Some customer) \<Rightarrow>
               if customer = [] then (http_not_found ''Customer does not exist'', s)
               else
                 (case dict_item customer ''id'' of
                    Inl e \<Rightarrow> (Inl e, s)
                  | Inr cid \<Rightarrow>
                      (Inr (JObj [(''result'', JObj customer)]),
                       enqueue_event
                         (JObj [(''type'', JStr ''audit''), (''tool'', JStr ''get_customer''),
                                (''customer_id'', cid)]) s))))"

definition call_list_customers :: "(string \<times> json) list \<Rightarrow> server \<Rightarrow> (error + json) \<times> server" where
  "call_list_customers args s =
     (let status = dict_get args ''status'' in
      case py_int (dict_get_default args ''limit'' (JInt 20)) of
        Inl e \<Rightarrow> (Inl e, s)
      | Inr limit \<Rightarrow>
          (case fetch_customers (db s) status limit of
             Inl e \<Rightarrow> (Inl e, s)
           | Inr records \<Rightarrow>
               (Inr (JObj [(''result'', JList (map JObj records))]),
                enqueue_event
                  (JObj [(''type'', JStr ''audit''), (''tool'', JStr ''list_customers''),
                         (''count'', JInt (int (length records)))]) s)))"

definition call_update_customer :: "(string \<times> json) list \<Rightarrow> server \<Rightarrow> (error + json) \<times> server" where
  "call_update_customer args s =
     (case py_int (dict_get args ''customer_id'') of
        Inl e \<Rightarrow> (Inl e, s)
      | Inr cid \<Rightarrow>
          (case (let data = dict_get args ''data'' in
                 if \<not> truthy data then Inr []
                 else (case data of JObj kvs \<Rightarrow> Inr kvs | _ \<Rightarrow> Inl AttributeError)) of
             Inl e \<Rightarrow> (Inl e, s)
           | Inr patch \<Rightarrow>
               (case update_customer_record (db s) cid patch of
                  (Inl e, d') \<Rightarrow> (Inl e, s\<lparr>db := d'\<rparr>)
                | (Inr None, d') \<Rightarrow> (http_not_found ''Customer not found for update'', s\<lparr>db := d'\<rparr>)
                | (Inr (Some updated), d') \<Rightarrow>
                    if updated = [] then (http_not_found ''Customer not found for update'', s\<lparr>db := d'\<rparr>)
                    else
                      (case dict_item updated ''id'' of
                         Inl e \<Rightarrow> (Inl e, s\<lparr>db := d'\<rparr>)
                       | Inr uid \<Rightarrow>
                           (Inr (JObj [(''result'', JObj updated)]),
                            enqueue_event
                              (JObj [(''type'', JStr ''update''), (''tool'', JStr ''update_customer''),
                                     (''customer_id'', uid)]) (s\<lparr>db := d'\<rparr>))))))"

definition call_create_ticket :: "(string \<times> json) list \<Rightarrow> server \<Rightarrow> (error + json) \<times> server" where
  "call_create_ticket args s =
     (case py_int (dict_get args ''customer_id'') of
        Inl e \<Rightarrow> (Inl e, s)
      | Inr cid \<Rightarrow>
          (let issue = py_str (dict_get args ''issue'');
               priority = py_str (dict_get args ''priority'') in
           case create_ticket_record (db s) cid issue priority of
             (Inl e, d') \<Rightarrow> (Inl e, s\<lparr>db := d'\<rparr>)
           | (Inr ticket, d') \<Rightarrow>
               (case dict_item ticket ''id'' of
                  Inl e \<Rightarrow> (Inl e, s\<lparr>db := d'\<rparr>)
                | Inr tid \<Rightarrow>
                    (Inr (JObj [(''result'', JObj ticket)]),
                     enqueue_event
                       (JObj [(''type'', JStr ''ticket''), (''tool'', JStr ''create_ticket''),
                              (''ticket_id'', tid)]) (s\<lparr>db := d'\<rparr>)))))"

definition call_get_customer_history :: "(string \<times> json) list \<Rightarrow> server \<Rightarrow> (error + json) \<times> server" where
  "call_get_customer_history args s =
     (case py_int (dict_get args ''customer_id'') of
        Inl e \<Rightarrow> (Inl e, s)
      | Inr cid \<Rightarrow>
          (case fetch_history (db s) cid of
             Inl e \<Rightarrow> (Inl e, s)
           | Inr history \<Rightarrow>
               (Inr (JObj [(''result'', JList (map JObj history))]),
                enqueue_event
                  (JObj [(''type'', JStr ''history''), (''tool'', JStr ''get_customer_history''),
                         (''count'', JInt (int (length history)))]) s)))"

definition call_tool :: "ToolInvocation \<Rightarrow> server \<Rightarrow> (error + json) \<times> server" where
  "call_tool request s =
     (let tool = name request; args = arguments request in
      if tool = ''get_customer'' then call_get_customer args s
      else if tool = ''list_customers'' then call_list_customers args s
      else if tool = ''update_customer'' then call_update_customer args s
      else if tool = ''create_ticket'' then call_create_ticket args s
      else if tool = ''get_customer_history'' then call_get_customer_history args s
      else (http_not_found (''Unknown tool: '' @ tool), s))"

section \<open>The event stream\<close>

text \<open>
  Every client of \<^verbatim>\<open>/events/stream\<close> runs its own copy of the generator of
  \<^verbatim>\<open>stream_events\<close>, and every copy reads the same \<^verbatim>\<open>event_queue\<close>:
  \<^verbatim>\<open>event_queue.get()\<close> removes the oldest event from the queue and hands it to the one
  generator that asked. On an empty queue the generator waits; the queue keeps the waiting
  readers in the order in which they asked, and \<^verbatim>\<open>event_queue.put\<close> wakes the first of
  them, which then takes the oldest event. The process is a run of actions: an invocation, a
  client connecting, and a connected client's generator asking for its next event.
  \<open>received\<close> lists the frames each connected client was sent, in order, and
  \<open>waiting\<close> the clients whose generator waits.
\<close>

record process =
  srv :: server
  received :: "(nat \<times> json list) list"
  waiting :: "nat list"

datatype action =
    Invoke ToolInvocation
  | Connect nat
  | Next nat

definition frame :: "json \<Rightarrow> json" where
  \<comment> \<open>what the generator yields for an event\<close>
  "frame event = JObj [(''event'', JStr ''update''), (''data'', event)]"

definition stream_events :: "nat \<Rightarrow> process \<Rightarrow> process" where
  \<comment> \<open>a client connects: its generator exists and has yielded nothing yet\<close>
  "stream_events client p =
     (if client \<in> set (map fst (received p)) then p
      else p\<lparr>received := received p @ [(client, [])]\<rparr>)"

definition take_event :: "nat \<Rightarrow> process \<Rightarrow> process" where
  \<comment> \<open>\<^verbatim>\<open>get()\<close> returns to the client's generator, which yields the frame\<close>
  "take_event client p =
     (case event_queue (srv p) of
        [] \<Rightarrow> p
      | event # rest \<Rightarrow>
          p\<lparr>srv := (srv p)\<lparr>event_queue := rest\<rparr>,
            received := map (\<lambda>cf. if fst cf = client then (fst cf, snd cf @ [frame event]) else cf)
                            (received p),
            waiting := removeAll client (waiting p)\<rparr>)"

definition generator :: "nat \<Rightarrow> process \<Rightarrow> process" where
  \<comment> \<open>the client's generator reaches \<^verbatim>\<open>await event_queue.get()\<close>\<close>
  "generator client p =
     (if client \<notin> set (map fst (received p)) then p
      else if event_queue (srv p) = [] then
        (if client \<in> set (waiting p) then p else p\<lparr>waiting := waiting p @ [client]\<rparr>)
      else take_event client p)"

definition wakeup_next :: "process \<Rightarrow> process" where
  \<comment> \<open>after a \<^verbatim>\<open>put\<close>: the first waiting reader, if there is one, takes the oldest event\<close>
  "wakeup_next p =
     (case filter (\<lambda>client. client \<in> set (map fst (received p))) (waiting p) of
        [] \<Rightarrow> p
      | client # others \<Rightarrow> take_event client p)"

fun step :: "process \<Rightarrow> action \<Rightarrow> process" where
  \<comment> \<open>an invocation that succeeds has put one event into the queue\<close>
  "step p (Invoke request) =
     (case call_tool request (srv p) of
        (Inl e, s') \<Rightarrow> p\<lparr>srv := s'\<rparr>
      | (Inr r, s') \<Rightarrow> wakeup_next (p\<lparr>srv := s'\<rparr>))"
| "step p (Connect client) = stream_events client p"
| "step p (Next client) = generator client p"

definition run :: "action list \<Rightarrow> process \<Rightarrow> process" where
  "run acts p = foldl step p acts"

definition frames_of :: "nat \<Rightarrow> process \<Rightarrow> json list" where
  \<comment> \<open>the frames a client was sent; none for a client that never connected\<close>
  "frames_of client p = (case map_of (received p) client of None \<Rightarrow> [] | Some fs \<Rightarrow> fs)"


section \<open>Tasks and status updates\<close>

text \<open>The models of \<^verbatim>\<open>sdk/types.py\<close> that describe a task and its status.\<close>

datatype Role = user | agent

record TextPart =
  part_text :: string

record Message =
  messageId :: string
  role :: Role
  parts :: "TextPart list"
  taskId :: "string option"
  contextId :: "string option"

datatype TaskState = running | completed | canceled

record TaskStatus =
  state :: TaskState
  message :: "Message option"

record TaskStatusUpdateEvent =
  event_taskId :: string
  event_contextId :: string
  status :: TaskStatus
  final :: bool

definition status_update_event :: "string \<Rightarrow> string \<Rightarrow> TaskStatus \<Rightarrow> TaskStatusUpdateEvent" where
  \<comment> \<open>Modelled from the spec: the producer of status-update events for a task. No file of
      the repository's sources constructs a \<^verbatim>\<open>TaskStatusUpdateEvent\<close> (the request handler
      of \<^verbatim>\<open>common.a2a\<close> is not among them); the specification asks that the flag
      \<^verbatim>\<open>final\<close> be true exactly when the new state is terminal, that is completed or
      canceled.\<close>
  "status_update_event task_id context_id new_status =
     \<lparr>event_taskId = task_id, event_contextId = context_id, status = new_status,
      final = (state new_status = completed \<or> state new_status = canceled)\<rparr>"

section \<open>A sample store\<close>

text \<open>
  A store to run the code on: the customers of \<^verbatim>\<open>_SEED_CUSTOMERS\<close> in
  \<^verbatim>\<open>common/db.py\<close> and the interactions \<^verbatim>\<open>_SEED_INTERACTIONS\<close> of the first two
  of them (the third customer has none here), with timestamps chosen here; and a server
  that has published nothing yet.
\<close>

definition seed_store :: database where
  "seed_store =
     \<lparr>customers =
        [\<lparr>c_id = 1, c_name = ''Ana Customer'', c_email = ''ana@example.com'',
          c_status = ''active'', c_created_at = ''2024-01-01 09:00:00''\<rparr>,
         \<lparr>c_id = 2, c_name = ''Brian Blocked'', c_email = ''brian@example.com'',
          c_status = ''delinquent'', c_created_at = ''2024-01-01 09:00:00''\<rparr>,
         \<lparr>c_id = 3, c_name = ''Cara Care'', c_email = ''cara@example.com'',
          c_status = ''vip'', c_created_at = ''2024-01-01 09:00:00''\<rparr>],
      tickets = [],
      interactions =
        [\<lparr>i_id = 1, i_customer_id = 1, i_channel = ''email'',
          i_notes = ''Welcome email sent'', i_created_at = ''2024-01-02 10:00:00''\<rparr>,
         \<lparr>i_id = 2, i_customer_id = 1, i_channel = ''phone'',
          i_notes = ''User reported login issue'', i_created_at = ''2024-01-05 16:30:00''\<rparr>,
         \<lparr>i_id = 3, i_customer_id = 2, i_channel = ''chat'',
          i_notes = ''Billing dispute initiated'', i_created_at = ''2024-01-03 11:00:00''\<rparr>],
      ticket_seq = 0,
      clock = ''2024-02-01 12:00:00''\<rparr>"

definition seed_server :: server where
  "seed_server = \<lparr>db = seed_store, event_queue = []\<rparr>"

definition seed_process :: process where
  "seed_process = \<lparr>srv = seed_server, received = [], waiting = []\<rparr>"

section \<open>Notions used to state the properties\<close>

definition emitted :: "string \<Rightarrow> string \<Rightarrow> server \<Rightarrow> server \<Rightarrow> bool" where
  \<comment> \<open>from \<open>s\<close> to \<open>s'\<close> the queue grew by one event of the given tool and type\<close>
  "emitted tool kind s s' =
     (\<exists>detail. event_queue s' =
        event_queue s @ [JObj [(''type'', JStr kind), (''tool'', JStr tool), detail]])"

definition customer_ids :: "database \<Rightarrow> int list" where
  \<comment> \<open>the ids of the customers of the store, as the integers a request names them by\<close>
  "customer_ids d = map (\<lambda>c. sint (c_id c)) (customers d)"

definition foreign_keys_ok :: "database \<Rightarrow> bool" where
  \<comment> \<open>the foreign keys of the schema: every ticket and every interaction belongs to a
      customer of the store\<close>
  "foreign_keys_ok d =
     ((\<forall>t \<in> set (tickets d). t_customer_id t \<in> set (map c_id (customers d))) \<and>
      (\<forall>i \<in> set (interactions d). i_customer_id i \<in> set (map c_id (customers d))))"



section \<open>Auxiliary facts\<close>

lemma find_SomeD: "find P xs = Some x \<Longrightarrow> P x \<and> x \<in> set xs"
  by (induction xs) (auto split: if_splits)

subsection \<open>Binding integers\<close>

lemma sint_word_of_int64: "in_int64 n \<Longrightarrow> sint (word_of_int n :: int64) = n"
  unfolding in_int64_def
  by (simp add: sint_sbintrunc' signed_take_bit_int_eq_self)

lemma in_int64_sint: "in_int64 (sint (w :: int64))"
  unfolding in_int64_def using sint_ge[of w] sint_lt[of w] by simp

lemma bind_int_sint: "bind_int n = Inr w \<Longrightarrow> sint w = n \<and> in_int64 n"
  by (auto simp: bind_int_def sint_word_of_int64 split: if_splits)

lemma bind_int_of_sint: "bind_int (sint w) = Inr w"
  by (simp add: bind_int_def in_int64_sint)

lemma bind_int_overflow: "\<not> in_int64 n \<Longrightarrow> bind_int n = Inl OverflowError"
  by (simp add: bind_int_def)


lemma bind_int_key: "bind_int n = Inr key \<Longrightarrow> (w = key) = (sint w = n)"
  using bind_int_sint[of n key] by (auto intro: signed_word_eqI)

lemma get_customer_id:
  "get_customer d cid = Inr (Some row) \<Longrightarrow> row \<noteq> [] \<and> dict_item row ''id'' = Inr (JInt cid)"
  by (auto simp: get_customer_def customer_dict_def dict_item_def
      split: option.splits sum.splits dest!: find_SomeD bind_int_sint)

subsection \<open>What each branch does to the queue\<close>

lemma get_customer_effect:
  "call_get_customer args s = (r, s') \<Longrightarrow>
     (case r of Inl e \<Rightarrow> event_queue s' = event_queue s
      | Inr v \<Rightarrow> emitted ''get_customer'' ''audit'' s s')"
  by (auto simp: call_get_customer_def enqueue_event_def http_not_found_def fetch_customer_def
      emitted_def split: sum.splits option.splits if_splits dest: get_customer_id)

lemma list_customers_effect:
  "call_list_customers args s = (r, s') \<Longrightarrow>
     (case r of Inl e \<Rightarrow> event_queue s' = event_queue s
      | Inr v \<Rightarrow> emitted ''list_customers'' ''audit'' s s')"
  by (auto simp: call_list_customers_def enqueue_event_def emitted_def Let_def
      split: sum.splits)

lemma update_customer_effect:
  "call_update_customer args s = (r, s') \<Longrightarrow>
     (case r of Inl e \<Rightarrow> event_queue s' = event_queue s
      | Inr v \<Rightarrow> emitted ''update_customer'' ''update'' s s')"
  by (auto simp: call_update_customer_def enqueue_event_def http_not_found_def emitted_def
      Let_def split: sum.splits option.splits if_splits prod.splits json.splits)

lemma create_ticket_effect:
  "call_create_ticket args s = (r, s') \<Longrightarrow>
     (case r of Inl e \<Rightarrow> event_queue s' = event_queue s
      | Inr v \<Rightarrow> emitted ''create_ticket'' ''ticket'' s s')"
  by (auto simp: call_create_ticket_def enqueue_event_def emitted_def Let_def
      split: sum.splits prod.splits)

lemma get_customer_history_effect:
  "call_get_customer_history args s = (r, s') \<Longrightarrow>
     (case r of Inl e \<Rightarrow> event_queue s' = event_queue s
      | Inr v \<Rightarrow> emitted ''get_customer_history'' ''history'' s s')"
  by (auto simp: call_get_customer_history_def enqueue_event_def emitted_def Let_def
      split: sum.splits)

lemma call_tool_effect:
  assumes "call_tool request s = (r, s')"
  shows "case r of
           Inl e \<Rightarrow> event_queue s' = event_queue s
         | Inr v \<Rightarrow>
             (\<exists>kind. emitted (name request) kind s s' \<and>
                (name request, kind) \<in>
                  {(''get_customer'', ''audit''), (''list_customers'', ''audit''),
                   (''update_customer'', ''update''), (''create_ticket'', ''ticket''),
                   (''get_customer_history'', ''history'')})"
proof -
  consider (a) "name request = ''get_customer''" | (b) "name request = ''list_customers''"
    | (c) "name request = ''update_customer''" | (d) "name request = ''create_ticket''"
    | (e) "name request = ''get_customer_history''"
    | (f) "name request \<notin> {''get_customer'', ''list_customers'', ''update_customer'',
                              ''create_ticket'', ''get_customer_history''}"
    by blast
  then show ?thesis
  proof cases
    case a
    with assms have "call_get_customer (arguments request) s = (r, s')"
      by (simp add: call_tool_def)
    from get_customer_effect[OF this] a show ?thesis by (auto split: sum.splits)
  next
    case b
    with assms have "call_list_customers (arguments request) s = (r, s')"
      by (simp add: call_tool_def)
    from list_customers_effect[OF this] b show ?thesis by (auto split: sum.splits)
  next
    case c
    with assms have "call_update_customer (arguments request) s = (r, s')"
      by (simp add: call_tool_def)
    from update_customer_effect[OF this] c show ?thesis by (auto split: sum.splits)
  next
    case d
    with assms have "call_create_ticket (arguments request) s = (r, s')"
      by (simp add: call_tool_def)
    from create_ticket_effect[OF this] d show ?thesis by (auto split: sum.splits)
  next
    case e
    with assms have "call_get_customer_history (arguments request) s = (r, s')"
      by (simp add: call_tool_def)
    from get_customer_history_effect[OF this] e show ?thesis by (auto split: sum.splits)
  next
    case f
    with assms show ?thesis by (auto simp: call_tool_def http_not_found_def)
  qed
qed

subsection \<open>Sample invocations on the sample store\<close>

lemma sample_get_customer:
  "call_tool \<lparr>name = ''get_customer'', arguments = [(''customer_id'', JInt 1)]\<rparr> seed_server =
     (Inr (JObj [(''result'',
        JObj [(''id'', JInt 1), (''name'', JStr ''Ana Customer''),
              (''email'', JStr ''ana@example.com''), (''status'', JStr ''active''),
              (''created_at'', JStr ''2024-01-01 09:00:00'')])]),
      seed_server\<lparr>event_queue :=
        [JObj [(''type'', JStr ''audit''), (''tool'', JStr ''get_customer''),
               (''customer_id'', JInt 1)]]\<rparr>)"
  by code_simp

lemma sample_get_customer_absent:
  "call_tool \<lparr>name = ''get_customer'', arguments = [(''customer_id'', JInt 9999)]\<rparr> seed_server =
     (Inl (HTTPException 404 ''Customer does not exist''), seed_server)"
  by code_simp

lemma sample_ticket_refused:
  "call_tool \<lparr>name = ''create_ticket'',
              arguments = [(''customer_id'', JInt 9999), (''issue'', JStr ''billing''),
                           (''priority'', JStr ''high'')]\<rparr> seed_server =
     (Inl IntegrityError, seed_server)"
  by code_simp

lemma sample_get_customer_invalid:
  "call_tool \<lparr>name = ''get_customer'', arguments = [(''customer_id'', JStr ''first'')]\<rparr>
     seed_server = (Inl ValueError, seed_server)"
  by code_simp

section \<open>The claims\<close>

text \<open>
  Claim C1. An invocation that succeeds publishes exactly one event, and the event is in the
  queue when the result is returned: the queue of the state returned with the result is the
  old queue followed by one event. An invocation that fails, whatever the error (unknown
  tool, an argument that cannot be coerced, a customer that does not exist, an error of the
  store), leaves the queue as it was.
\<close>

theorem call_tool_publishes_once:
  assumes "call_tool request s = (result, s')"
  shows "case result of
           Inr payload \<Rightarrow> (\<exists>event. event_queue s' = event_queue s @ [event])
         | Inl failure \<Rightarrow> event_queue s' = event_queue s"
  using call_tool_effect[OF assms] by (auto simp: emitted_def split: sum.splits)

theorem call_tool_publishes_once_witness:
  "(\<exists>event. event_queue (snd (call_tool
        \<lparr>name = ''get_customer'', arguments = [(''customer_id'', JInt 1)]\<rparr> seed_server))
       = event_queue seed_server @ [event]) \<and>
   fst (call_tool \<lparr>name = ''get_customer'', arguments = [(''customer_id'', JInt 9999)]\<rparr>
          seed_server) = Inl (HTTPException 404 ''Customer does not exist'') \<and>
   event_queue (snd (call_tool
        \<lparr>name = ''get_customer'', arguments = [(''customer_id'', JInt 9999)]\<rparr> seed_server))
       = event_queue seed_server \<and>
   fst (call_tool \<lparr>name = ''create_ticket'',
                   arguments = [(''customer_id'', JInt 9999), (''issue'', JStr ''billing''),
                                (''priority'', JStr ''high'')]\<rparr> seed_server) = Inl IntegrityError \<and>
   event_queue (snd (call_tool \<lparr>name = ''create_ticket'',
                   arguments = [(''customer_id'', JInt 9999), (''issue'', JStr ''billing''),
                                (''priority'', JStr ''high'')]\<rparr> seed_server))
       = event_queue seed_server \<and>
   fst (call_tool \<lparr>name = ''get_customer'', arguments = [(''customer_id'', JStr ''first'')]\<rparr>
          seed_server) = Inl ValueError \<and>
   event_queue (snd (call_tool
        \<lparr>name = ''get_customer'', arguments = [(''customer_id'', JStr ''first'')]\<rparr> seed_server))
       = event_queue seed_server"
  using call_tool_publishes_once[OF sample_get_customer]
    call_tool_publishes_once[OF sample_get_customer_absent]
    call_tool_publishes_once[OF sample_ticket_refused]
    call_tool_publishes_once[OF sample_get_customer_invalid]
    sample_get_customer sample_get_customer_absent sample_ticket_refused
    sample_get_customer_invalid
  by simp

text \<open>
  Claim C7. A request whose tool name is not in the registry fails with the 404 error
  ``Unknown tool: <name>'' (FastAPI's not-found status). The store and the queue are left
  untouched: nothing is attempted, and nothing is attempted again.
\<close>

theorem unknown_tool_not_found:
  assumes "\<not> registered (name request)"
  shows "call_tool request s = (Inl (HTTPException 404 (''Unknown tool: '' @ name request)), s)"
  using assms
  by (simp add: registered_def TOOL_REGISTRY_def call_tool_def http_not_found_def)

theorem unknown_tool_not_found_witness:
  "\<not> registered ''delete_customer'' \<and>
   call_tool \<lparr>name = ''delete_customer'', arguments = [(''customer_id'', JInt 1)]\<rparr> seed_server =
     (Inl (HTTPException 404 ''Unknown tool: delete_customer''), seed_server)"
proof -
  have absent: "\<not> registered ''delete_customer''"
    by (simp add: registered_def TOOL_REGISTRY_def)
  from unknown_tool_not_found[of "\<lparr>name = ''delete_customer'', arguments = [(''customer_id'', JInt 1)]\<rparr>" seed_server]
    absent
  show ?thesis by simp
qed

subsection \<open>What an invocation does to the store\<close>

lemma set_column_id: "c_id (foldl set_column c as) = c_id c"
  by (induction as arbitrary: c) (auto simp: set_column_def)

lemma set_column_created_at: "c_created_at (foldl set_column c as) = c_created_at c"
  by (induction as arbitrary: c) (auto simp: set_column_def)

lemma modify_customer_ids:
  "modify_customer d cid changes = (r, d') \<Longrightarrow>
     map c_id (customers d') = map c_id (customers d) \<and> tickets d' = tickets d \<and>
     interactions d' = interactions d \<and> ticket_seq d' = ticket_seq d \<and> clock d' = clock d"
  by (auto simp: modify_customer_def Let_def set_column_id split: if_splits sum.splits)

lemma new_ticket_tables:
  "new_ticket d cid issue priority = (r, d') \<Longrightarrow>
     customers d' = customers d \<and> interactions d' = interactions d \<and>
     (d' = d \<or>
        (\<exists>row. tickets d' = tickets d @ [row] \<and>
               t_customer_id row \<in> set (map c_id (customers d))))"
  by (auto simp: new_ticket_def Let_def split: if_splits option.splits sum.splits)

lemma get_customer_db: "call_get_customer args s = (r, s') \<Longrightarrow> db s' = db s"
  by (auto simp: call_get_customer_def enqueue_event_def http_not_found_def
      split: sum.splits option.splits if_splits)

lemma list_customers_db: "call_list_customers args s = (r, s') \<Longrightarrow> db s' = db s"
  by (auto simp: call_list_customers_def enqueue_event_def Let_def split: sum.splits)

lemma get_customer_history_db: "call_get_customer_history args s = (r, s') \<Longrightarrow> db s' = db s"
  by (auto simp: call_get_customer_history_def enqueue_event_def Let_def split: sum.splits)

lemma update_customer_db:
  "call_update_customer args s = (r, s') \<Longrightarrow>
     map c_id (customers (db s')) = map c_id (customers (db s)) \<and>
     tickets (db s') = tickets (db s) \<and> interactions (db s') = interactions (db s)"
  unfolding call_update_customer_def update_customer_record_def
  by (auto simp: enqueue_event_def http_not_found_def Let_def
      split: sum.splits option.splits if_splits prod.splits json.splits
      dest!: modify_customer_ids)

lemma create_ticket_db:
  "call_create_ticket args s = (r, s') \<Longrightarrow>
     customers (db s') = customers (db s) \<and> interactions (db s') = interactions (db s) \<and>
     (tickets (db s') = tickets (db s) \<or>
      (\<exists>row. tickets (db s') = tickets (db s) @ [row] \<and>
             t_customer_id row \<in> set (map c_id (customers (db s)))))"
  unfolding call_create_ticket_def create_ticket_record_def
  by (auto simp: enqueue_event_def Let_def split: sum.splits prod.splits
      dest!: new_ticket_tables)

lemma call_tool_db:
  assumes "call_tool request s = (r, s')"
  shows "map c_id (customers (db s')) = map c_id (customers (db s)) \<and>
         interactions (db s') = interactions (db s) \<and>
         (tickets (db s') = tickets (db s) \<or>
          (\<exists>row. tickets (db s') = tickets (db s) @ [row] \<and>
                 t_customer_id row \<in> set (map c_id (customers (db s)))))"
proof -
  consider (a) "call_get_customer (arguments request) s = (r, s')"
    | (b) "call_list_customers (arguments request) s = (r, s')"
    | (c) "call_update_customer (arguments request) s = (r, s')"
    | (d) "call_create_ticket (arguments request) s = (r, s')"
    | (e) "call_get_customer_history (arguments request) s = (r, s')"
    | (f) "s' = s"
    using assms by (auto simp: call_tool_def Let_def split: if_splits)
  then show ?thesis
  proof cases
    case a
    from get_customer_db[OF this] show ?thesis by simp
  next
    case b
    from list_customers_db[OF this] show ?thesis by simp
  next
    case c
    from update_customer_db[OF this] show ?thesis by simp
  next
    case d
    from create_ticket_db[OF this] show ?thesis by auto
  next
    case e
    from get_customer_history_db[OF this] show ?thesis by simp
  next
    case f
    then show ?thesis by simp
  qed
qed

lemma call_tool_preserves_foreign_keys:
  assumes "call_tool request s = (r, s')" "foreign_keys_ok (db s)"
  shows "foreign_keys_ok (db s')"
  using call_tool_db[OF assms(1)] assms(2)
  by (auto simp: foreign_keys_ok_def)

subsection \<open>The history query\<close>

lemma history_desc:
  "sorted_wrt (\<lambda>a b. i_created_at b \<le> i_created_at a) (rev (sort_key i_created_at xs))"
  using sorted_sort_key[of i_created_at xs]
  by (simp add: sorted_wrt_rev sorted_wrt_map)

lemma customer_history_rows:
  assumes "bind_int cid = Inr key"
  shows "customer_history d cid =
     Inr (map interaction_dict
           (rev (sort_key i_created_at
                  (rev (filter (\<lambda>i. sint (i_customer_id i) = cid) (interactions d))))))"
proof -
  have same: "(\<lambda>i. i_customer_id i = key) = (\<lambda>i. sint (i_customer_id i) = cid)"
    using bind_int_key[OF assms] by (simp add: fun_eq_iff)
  have "customer_history d cid =
     Inr (map interaction_dict
           (rev (sort_key i_created_at
                  (rev (filter (\<lambda>i. i_customer_id i = key) (interactions d))))))"
    using assms by (simp add: customer_history_def)
  then show ?thesis unfolding same .
qed

lemma call_history_ok:
  assumes "name request = ''get_customer_history''"
    and "py_int (dict_get (arguments request) ''customer_id'') = Inr cid"
    and "customer_history (db s) cid = Inr history"
  shows "call_tool request s =
     (Inr (JObj [(''result'', JList (map JObj history))]),
      enqueue_event (JObj [(''type'', JStr ''history''), (''tool'', JStr ''get_customer_history''),
                           (''count'', JInt (int (length history)))]) s)"
  using assms by (simp add: call_tool_def call_get_customer_history_def fetch_history_def)

lemma customer_id_in_range:
  "cid \<in> set (customer_ids d) \<Longrightarrow> \<exists>key. bind_int cid = Inr key"
  by (auto simp: customer_ids_def bind_int_of_sint)

lemma seed_foreign_keys: "foreign_keys_ok seed_store"
  by code_simp

lemma sample_history:
  "fst (call_tool \<lparr>name = ''get_customer_history'', arguments = [(''customer_id'', JStr ''1'')]\<rparr>
         seed_server) =
     Inr (JObj [(''result'', JList
       [JObj [(''id'', JInt 2), (''channel'', JStr ''phone''),
              (''notes'', JStr ''User reported login issue''),
              (''created_at'', JStr ''2024-01-05 16:30:00'')],
        JObj [(''id'', JInt 1), (''channel'', JStr ''email''),
              (''notes'', JStr ''Welcome email sent''),
              (''created_at'', JStr ''2024-01-02 10:00:00'')]])])"
  by code_simp

lemma sample_customer_id_text: "py_int (dict_get [(''customer_id'', JStr ''1'')] ''customer_id'') = Inr 1"
  by code_simp


text \<open>
  Claim C6. For a \<^verbatim>\<open>get_customer_history\<close> invocation whose \<^verbatim>\<open>customer_id\<close> names a
  customer of the store, the result is the list of that customer's interactions (each of
  them once, as the multiset equation says), ordered by \<^verbatim>\<open>created_at\<close> from the newest
  to the oldest. When the customer has no interaction the invocation still succeeds, with
  the empty list.
\<close>

theorem history_newest_first:
  assumes "name request = ''get_customer_history''"
    and "py_int (dict_get (arguments request) ''customer_id'') = Inr cid"
    and "cid \<in> set (customer_ids (db s))"
  shows "\<exists>rows.
           fst (call_tool request s) = Inr (JObj [(''result'', JList (map (JObj \<circ> interaction_dict) rows))]) \<and>
           mset rows = mset (filter (\<lambda>i. sint (i_customer_id i) = cid) (interactions (db s))) \<and>
           sorted_wrt (\<lambda>a b. i_created_at b \<le> i_created_at a) rows \<and>
           (filter (\<lambda>i. sint (i_customer_id i) = cid) (interactions (db s)) = [] \<longrightarrow> rows = [])"
proof -
  let ?mine = "filter (\<lambda>i. sint (i_customer_id i) = cid) (interactions (db s))"
  let ?rows = "rev (sort_key i_created_at (rev ?mine))"
  from customer_id_in_range[OF assms(3)] obtain key where "bind_int cid = Inr key" ..
  from customer_history_rows[OF this, of "db s"]
  have "fst (call_tool request s) = Inr (JObj [(''result'', JList (map (JObj \<circ> interaction_dict) ?rows))])"
    using call_history_ok[OF assms(1,2)] by simp
  moreover have "mset ?rows = mset ?mine"
    by simp
  moreover have "sorted_wrt (\<lambda>a b. i_created_at b \<le> i_created_at a) ?rows"
    by (rule history_desc)
  moreover have "?mine = [] \<longrightarrow> ?rows = []"
    by simp
  ultimately show ?thesis by blast
qed

theorem history_newest_first_witness:
  "py_int (dict_get [(''customer_id'', JStr ''1'')] ''customer_id'') = Inr 1 \<and>
   1 \<in> set (customer_ids (db seed_server)) \<and>
   (\<exists>rows.
      fst (call_tool \<lparr>name = ''get_customer_history'', arguments = [(''customer_id'', JStr ''1'')]\<rparr>
             seed_server) =
        Inr (JObj [(''result'', JList (map (JObj \<circ> interaction_dict) rows))]) \<and>
      mset rows = mset (filter (\<lambda>i. sint (i_customer_id i) = 1) (interactions (db seed_server))) \<and>
      sorted_wrt (\<lambda>a b. i_created_at b \<le> i_created_at a) rows) \<and>
   fst (call_tool \<lparr>name = ''get_customer_history'', arguments = [(''customer_id'', JStr ''1'')]\<rparr>
         seed_server) =
     Inr (JObj [(''result'', JList
       [JObj [(''id'', JInt 2), (''channel'', JStr ''phone''),
              (''notes'', JStr ''User reported login issue''),
              (''created_at'', JStr ''2024-01-05 16:30:00'')],
        JObj [(''id'', JInt 1), (''channel'', JStr ''email''),
              (''notes'', JStr ''Welcome email sent''),
              (''created_at'', JStr ''2024-01-02 10:00:00'')]])]) \<and>
   3 \<in> set (customer_ids (db seed_server)) \<and>
   filter (\<lambda>i. sint (i_customer_id i) = 3) (interactions (db seed_server)) = [] \<and>
   fst (call_tool \<lparr>name = ''get_customer_history'', arguments = [(''customer_id'', JInt 3)]\<rparr>
         seed_server) = Inr (JObj [(''result'', JList [])])"
proof -
  have member: "1 \<in> set (customer_ids (db seed_server))"
    by code_simp
  from history_newest_first[of "\<lparr>name = ''get_customer_history'', arguments = [(''customer_id'', JStr ''1'')]\<rparr>" 1 seed_server]
    sample_customer_id_text member
  have first: "\<exists>rows.
      fst (call_tool \<lparr>name = ''get_customer_history'', arguments = [(''customer_id'', JStr ''1'')]\<rparr>
             seed_server) =
        Inr (JObj [(''result'', JList (map (JObj \<circ> interaction_dict) rows))]) \<and>
      mset rows = mset (filter (\<lambda>i. sint (i_customer_id i) = 1) (interactions (db seed_server))) \<and>
      sorted_wrt (\<lambda>a b. i_created_at b \<le> i_created_at a) rows"
    by auto
  have member3: "3 \<in> set (customer_ids (db seed_server))"
    by code_simp
  have none3: "filter (\<lambda>i. sint (i_customer_id i) = 3) (interactions (db seed_server)) = []"
    by code_simp
  have coerce3: "py_int (dict_get [(''customer_id'', JInt 3)] ''customer_id'') = Inr 3"
    by (simp add: dict_get_def)
  from history_newest_first[of "\<lparr>name = ''get_customer_history'', arguments = [(''customer_id'', JInt 3)]\<rparr>" 3 seed_server]
    coerce3 member3 none3
  have third: "fst (call_tool \<lparr>name = ''get_customer_history'', arguments = [(''customer_id'', JInt 3)]\<rparr>
         seed_server) = Inr (JObj [(''result'', JList [])])"
    by auto
  from sample_customer_id_text member first sample_history member3 none3 third
  show ?thesis by blast
qed




text \<open>
  Claim C8. Every event an invocation publishes carries a type among \<^verbatim>\<open>audit\<close>,
  \<^verbatim>\<open>update\<close>, \<^verbatim>\<open>ticket\<close> and \<^verbatim>\<open>history\<close> (the last two are the tags the code
  gives to the kinds the specification calls ticket-created and history-read), and the name
  of the tool. The type is fixed by the tool: \<^verbatim>\<open>audit\<close> for the reads
  \<^verbatim>\<open>get_customer\<close> and \<^verbatim>\<open>list_customers\<close>, \<^verbatim>\<open>update\<close> for
  \<^verbatim>\<open>update_customer\<close>, \<^verbatim>\<open>ticket\<close> for \<^verbatim>\<open>create_ticket\<close>, \<^verbatim>\<open>history\<close> for
  \<^verbatim>\<open>get_customer_history\<close>.
\<close>

theorem event_kind_by_tool:
  assumes "call_tool request s = (Inr payload, s')"
  shows "\<exists>kind detail.
           event_queue s' =
             event_queue s @ [JObj [(''type'', JStr kind), (''tool'', JStr (name request)), detail]] \<and>
           kind \<in> {''audit'', ''update'', ''ticket'', ''history''} \<and>
           kind =
             (if name request = ''get_customer'' \<or> name request = ''list_customers'' then ''audit''
              else if name request = ''update_customer'' then ''update''
              else if name request = ''create_ticket'' then ''ticket''
              else ''history'')"
  using call_tool_effect[OF assms] by (auto simp: emitted_def)

theorem event_kind_by_tool_witness:
  "\<exists>detail.
     event_queue (snd (call_tool \<lparr>name = ''get_customer'', arguments = [(''customer_id'', JInt 1)]\<rparr>
                         seed_server)) =
       event_queue seed_server @
         [JObj [(''type'', JStr ''audit''), (''tool'', JStr ''get_customer''), detail]]"
  using event_kind_by_tool[OF sample_get_customer] sample_get_customer
  by simp

subsection \<open>Inserting a ticket\<close>

lemma fold_max_ge: "(a::int) \<le> fold max xs a"
  by (induction xs arbitrary: a) (auto intro: order_trans[OF max.cobounded2])

lemma fold_max_member: "(x::int) \<in> set xs \<Longrightarrow> x \<le> fold max xs a"
proof (induction xs arbitrary: a)
  case Nil
  then show ?case by simp
next
  case (Cons y ys)
  show ?case
  proof (cases "x = y")
    case True
    have "max y a \<le> fold max ys (max y a)" by (rule fold_max_ge)
    with True show ?thesis by simp
  next
    case False
    with Cons show ?thesis by simp
  qed
qed

lemma find_fresh:
  "\<forall>t \<in> set ts. t_id t \<noteq> t_id row \<Longrightarrow> find (\<lambda>t. t_id t = t_id row) (ts @ [row]) = Some row"
  by (induction ts) auto

lemma new_ticket_ok:
  assumes "bind_int cid = Inr key" and "key \<in> set (map c_id (customers d))"
    and "in_int64 (fold max (map (\<lambda>t. sint (t_id t)) (tickets d)) (sint (ticket_seq d)) + 1)"
  shows "\<exists>row. new_ticket d cid issue priority =
           (Inr (ticket_dict row), d\<lparr>tickets := tickets d @ [row], ticket_seq := t_id row\<rparr>) \<and>
         row = \<lparr>t_id = word_of_int
                        (fold max (map (\<lambda>t. sint (t_id t)) (tickets d)) (sint (ticket_seq d)) + 1),
                t_customer_id = key, t_issue = issue, t_priority = priority, t_status = ''open'',
                t_created_at = clock d\<rparr> \<and>
         t_id row \<notin> set (map t_id (tickets d))"
proof -
  let ?next = "fold max (map (\<lambda>t. sint (t_id t)) (tickets d)) (sint (ticket_seq d)) + 1"
  let ?row = "\<lparr>t_id = word_of_int ?next, t_customer_id = key, t_issue = issue,
                t_priority = priority, t_status = ''open'', t_created_at = clock d\<rparr>"
  have fresh: "\<forall>t \<in> set (tickets d). t_id t \<noteq> t_id ?row"
  proof
    fix t assume "t \<in> set (tickets d)"
    then have "sint (t_id t) \<le> fold max (map (\<lambda>t. sint (t_id t)) (tickets d)) (sint (ticket_seq d))"
      by (intro fold_max_member) simp
    then have "sint (t_id t) \<noteq> ?next" by simp
    moreover have "sint (t_id ?row) = ?next"
      using sint_word_of_int64[OF assms(3)] by simp
    ultimately show "t_id t \<noteq> t_id ?row" by metis
  qed
  from find_fresh[OF fresh] have "find (\<lambda>t. t_id t = t_id ?row) (tickets d @ [?row]) = Some ?row" .
  then have "new_ticket d cid issue priority =
           (Inr (ticket_dict ?row), d\<lparr>tickets := tickets d @ [?row], ticket_seq := t_id ?row\<rparr>)"
    using assms by (simp add: new_ticket_def Let_def)
  moreover have "t_id ?row \<notin> set (map t_id (tickets d))"
    using fresh by auto
  ultimately show ?thesis by blast
qed

lemma new_ticket_success:
  assumes "new_ticket d cid issue priority = (Inr r, d')"
  shows "\<exists>key. bind_int cid = Inr key \<and> key \<in> set (map c_id (customers d)) \<and>
           in_int64 (fold max (map (\<lambda>t. sint (t_id t)) (tickets d)) (sint (ticket_seq d)) + 1)"
  using assms by (auto simp: new_ticket_def Let_def split: sum.splits if_splits)

lemma sample_create_ticket:
  "call_tool \<lparr>name = ''create_ticket'',
              arguments = [(''customer_id'', JInt 1), (''issue'', JStr ''billing''),
                           (''priority'', JStr ''high''), (''status'', JStr ''closed'')]\<rparr>
     seed_server =
   (Inr (JObj [(''result'',
      JObj [(''id'', JInt 1), (''customer_id'', JInt 1), (''issue'', JStr ''billing''),
            (''priority'', JStr ''high''), (''status'', JStr ''open''),
            (''created_at'', JStr ''2024-02-01 12:00:00'')])]),
    \<lparr>db = seed_store\<lparr>tickets :=
            [\<lparr>t_id = 1, t_customer_id = 1, t_issue = ''billing'', t_priority = ''high'',
              t_status = ''open'', t_created_at = ''2024-02-01 12:00:00''\<rparr>],
            ticket_seq := 1\<rparr>,
     event_queue = [JObj [(''type'', JStr ''ticket''), (''tool'', JStr ''create_ticket''),
                          (''ticket_id'', JInt 1)]]\<rparr>)"
  by code_simp

text \<open>
  Claim C5. A \<^verbatim>\<open>create_ticket\<close> invocation that succeeds returns the row it has just
  appended to the ticket table: its status is \<^verbatim>\<open>open\<close> whatever the request carries
  (a \<^verbatim>\<open>status\<close> argument is never read), its id is the one the store assigned, which no
  earlier ticket has, its \<^verbatim>\<open>created_at\<close> is the store's timestamp, and customer, issue
  and priority are the coerced arguments.
\<close>

theorem create_ticket_open:
  assumes "name request = ''create_ticket''"
    and "call_tool request s = (Inr payload, s')"
  shows "\<exists>row.
           payload = JObj [(''result'', JObj (ticket_dict row))] \<and>
           tickets (db s') = tickets (db s) @ [row] \<and>
           dict_item (ticket_dict row) ''status'' = Inr (JStr ''open'') \<and>
           dict_item (ticket_dict row) ''id'' = Inr (JInt (sint (t_id row))) \<and>
           t_id row \<notin> set (map t_id (tickets (db s))) \<and>
           dict_item (ticket_dict row) ''created_at'' = Inr (JStr (clock (db s))) \<and>
           py_int (dict_get (arguments request) ''customer_id'') = Inr (sint (t_customer_id row)) \<and>
           t_issue row = py_str (dict_get (arguments request) ''issue'') \<and>
           t_priority row = py_str (dict_get (arguments request) ''priority'')"
proof -
  from assms have run: "call_create_ticket (arguments request) s = (Inr payload, s')"
    by (simp add: call_tool_def)
  then obtain cid where cid: "py_int (dict_get (arguments request) ''customer_id'') = Inr cid"
    by (auto simp: call_create_ticket_def split: sum.splits)
  let ?issue = "py_str (dict_get (arguments request) ''issue'')"
  let ?priority = "py_str (dict_get (arguments request) ''priority'')"
  from run cid obtain ticket d' where made: "new_ticket (db s) cid ?issue ?priority = (Inr ticket, d')"
    by (auto simp: call_create_ticket_def create_ticket_record_def Let_def
        split: sum.splits prod.splits)
  from new_ticket_success[OF made] obtain key where key: "bind_int cid = Inr key"
      "key \<in> set (map c_id (customers (db s)))"
      "in_int64 (fold max (map (\<lambda>t. sint (t_id t)) (tickets (db s))) (sint (ticket_seq (db s))) + 1)"
    by blast
  from new_ticket_ok[OF key, of ?issue ?priority]
  obtain row where row: "new_ticket (db s) cid ?issue ?priority =
           (Inr (ticket_dict row), (db s)\<lparr>tickets := tickets (db s) @ [row], ticket_seq := t_id row\<rparr>)"
     "row = \<lparr>t_id = word_of_int
                  (fold max (map (\<lambda>t. sint (t_id t)) (tickets (db s))) (sint (ticket_seq (db s))) + 1),
             t_customer_id = key, t_issue = ?issue, t_priority = ?priority, t_status = ''open'',
             t_created_at = clock (db s)\<rparr>"
     "t_id row \<notin> set (map t_id (tickets (db s)))"
    by blast
  from run cid row(1) have "payload = JObj [(''result'', JObj (ticket_dict row))]"
      and "tickets (db s') = tickets (db s) @ [row]"
    by (auto simp: call_create_ticket_def create_ticket_record_def Let_def dict_item_def
        ticket_dict_def enqueue_event_def)
  moreover from row(2) have "dict_item (ticket_dict row) ''status'' = Inr (JStr ''open'')"
    "dict_item (ticket_dict row) ''id'' = Inr (JInt (sint (t_id row)))"
    "dict_item (ticket_dict row) ''created_at'' = Inr (JStr (clock (db s)))"
    "t_customer_id row = key" "t_issue row = ?issue" "t_priority row = ?priority"
    by (simp_all add: dict_item_def ticket_dict_def)
  moreover from bind_int_sint[OF key(1)] have "sint key = cid" by simp
  ultimately show ?thesis using row(3) cid by blast
qed

theorem create_ticket_open_witness:
  "\<exists>row.
     fst (call_tool \<lparr>name = ''create_ticket'',
              arguments = [(''customer_id'', JInt 1), (''issue'', JStr ''billing''),
                           (''priority'', JStr ''high''), (''status'', JStr ''closed'')]\<rparr>
            seed_server) = Inr (JObj [(''result'', JObj (ticket_dict row))]) \<and>
     dict_item (ticket_dict row) ''status'' = Inr (JStr ''open'') \<and>
     dict_item (ticket_dict row) ''id'' = Inr (JInt 1) \<and>
     dict_item (ticket_dict row) ''created_at'' = Inr (JStr ''2024-02-01 12:00:00'')"
proof -
  from create_ticket_open[OF _ sample_create_ticket]
  obtain row where
    "JObj [(''result'',
      JObj [(''id'', JInt 1), (''customer_id'', JInt 1), (''issue'', JStr ''billing''),
            (''priority'', JStr ''high''), (''status'', JStr ''open''),
            (''created_at'', JStr ''2024-02-01 12:00:00'')])] = JObj [(''result'', JObj (ticket_dict row))]"
    "dict_item (ticket_dict row) ''status'' = Inr (JStr ''open'')"
    "dict_item (ticket_dict row) ''id'' = Inr (JInt (sint (t_id row)))"
    "dict_item (ticket_dict row) ''created_at'' = Inr (JStr (clock (db seed_server)))"
    by auto
  moreover from this(1) have "sint (t_id row) = 1" by (simp add: ticket_dict_def)
  moreover have "clock (db seed_server) = ''2024-02-01 12:00:00''" by (simp add: seed_server_def seed_store_def)
  ultimately show ?thesis using sample_create_ticket by (intro exI[of _ row]) simp
qed

subsection \<open>Updating a customer\<close>





lemma get_customer_overflow: "\<not> in_int64 cid \<Longrightarrow> get_customer d cid = Inl OverflowError"
  by (simp add: get_customer_def bind_int_overflow)


lemma modify_customer_overflow:
  "\<not> in_int64 cid \<Longrightarrow> modify_customer d cid changes = (Inl OverflowError, d)"
  by (simp add: modify_customer_def Let_def get_customer_overflow bind_int_overflow)





















lemma sample_update:
  "call_tool \<lparr>name = ''update_customer'',
              arguments = [(''customer_id'', JInt 1),
                           (''data'', JObj [(''name'', JStr ''Ana Client''), (''nickname'', JStr ''Annie'')])]\<rparr>
     seed_server =
   (Inr (JObj [(''result'',
      JObj [(''id'', JInt 1), (''name'', JStr ''Ana Client''), (''email'', JStr ''ana@example.com''),
            (''status'', JStr ''active''), (''created_at'', JStr ''2024-01-01 09:00:00'')])]),
    \<lparr>db = seed_store\<lparr>customers :=
            [\<lparr>c_id = 1, c_name = ''Ana Client'', c_email = ''ana@example.com'',
              c_status = ''active'', c_created_at = ''2024-01-01 09:00:00''\<rparr>,
             \<lparr>c_id = 2, c_name = ''Brian Blocked'', c_email = ''brian@example.com'',
              c_status = ''delinquent'', c_created_at = ''2024-01-01 09:00:00''\<rparr>,
             \<lparr>c_id = 3, c_name = ''Cara Care'', c_email = ''cara@example.com'',
              c_status = ''vip'', c_created_at = ''2024-01-01 09:00:00''\<rparr>]\<rparr>,
     event_queue = [JObj [(''type'', JStr ''update''), (''tool'', JStr ''update_customer''),
                          (''customer_id'', JInt 1)]]\<rparr>)"
  by code_simp

lemma sample_update_value_overflow:
  "call_tool \<lparr>name = ''update_customer'',
              arguments = [(''customer_id'', JInt 1),
                           (''data'', JObj [(''name'', JInt 9223372036854775808)])]\<rparr>
     seed_server = (Inl OverflowError, seed_server)"
  by code_simp





subsection \<open>Which arguments an invocation reads\<close>

lemma tool_cases:
  obtains (get_customer) "t = ''get_customer''" | (list_customers) "t = ''list_customers''"
    | (update_customer) "t = ''update_customer''" | (create_ticket) "t = ''create_ticket''"
    | (get_customer_history) "t = ''get_customer_history''"
    | (unknown) "\<not> registered t"
  by (auto simp: registered_def TOOL_REGISTRY_def)

lemma customer_id_required:
  "''customer_id'' \<in> set (required_arguments t) \<longleftrightarrow>
   t \<in> {''get_customer'', ''update_customer'', ''create_ticket'', ''get_customer_history''}"
  by (cases t rule: tool_cases) (auto simp: required_arguments_def registered_def TOOL_REGISTRY_def)

lemma customer_id_failure:
  assumes "''customer_id'' \<in> set (required_arguments (name request))"
    and "py_int (dict_get (arguments request) ''customer_id'') = Inl e"
  shows "call_tool request s = (Inl e, s)"
proof -
  from assms(1) consider "name request = ''get_customer''" | "name request = ''update_customer''"
    | "name request = ''create_ticket''" | "name request = ''get_customer_history''"
    unfolding customer_id_required by blast
  then show ?thesis
    using assms(2)
    by cases
      (simp_all add: call_tool_def call_get_customer_def call_update_customer_def
        call_create_ticket_def call_get_customer_history_def)
qed

lemma limit_failure:
  assumes "name request = ''list_customers''"
    and "py_int (dict_get_default (arguments request) ''limit'' (JInt 20)) = Inl e"
  shows "call_tool request s = (Inl e, s)"
  using assms by (simp add: call_tool_def call_list_customers_def)

lemma declared_properties_simps:
  "declared_properties ''get_customer'' = [''customer_id'']"
  "declared_properties ''list_customers'' = [''status'', ''limit'']"
  "declared_properties ''update_customer'' = [''customer_id'', ''data'']"
  "declared_properties ''create_ticket'' = [''customer_id'', ''issue'', ''priority'']"
  "declared_properties ''get_customer_history'' = [''customer_id'']"
  by (simp_all add: declared_properties_def TOOL_REGISTRY_def)

lemma dict_get_same: "map_of a k = map_of b k \<Longrightarrow> dict_get a k = dict_get b k"
  by (simp add: dict_get_def)

lemma dict_get_default_same:
  "map_of a k = map_of b k \<Longrightarrow> dict_get_default a k v = dict_get_default b k v"
  by (simp add: dict_get_default_def)

lemma call_get_customer_reads:
  assumes "map_of a ''customer_id'' = map_of b ''customer_id''"
  shows "call_get_customer a s = call_get_customer b s"
  unfolding call_get_customer_def dict_get_same[OF assms] ..

lemma call_list_customers_reads:
  assumes "map_of a ''status'' = map_of b ''status''" "map_of a ''limit'' = map_of b ''limit''"
  shows "call_list_customers a s = call_list_customers b s"
  unfolding call_list_customers_def dict_get_same[OF assms(1)] dict_get_default_same[OF assms(2)] ..

lemma call_update_customer_reads:
  assumes "map_of a ''customer_id'' = map_of b ''customer_id''" "map_of a ''data'' = map_of b ''data''"
  shows "call_update_customer a s = call_update_customer b s"
  unfolding call_update_customer_def dict_get_same[OF assms(1)] dict_get_same[OF assms(2)] ..

lemma call_create_ticket_reads:
  assumes "map_of a ''customer_id'' = map_of b ''customer_id''" "map_of a ''issue'' = map_of b ''issue''"
    "map_of a ''priority'' = map_of b ''priority''"
  shows "call_create_ticket a s = call_create_ticket b s"
  unfolding call_create_ticket_def dict_get_same[OF assms(1)] dict_get_same[OF assms(2)]
    dict_get_same[OF assms(3)] ..

lemma call_get_customer_history_reads:
  assumes "map_of a ''customer_id'' = map_of b ''customer_id''"
  shows "call_get_customer_history a s = call_get_customer_history b s"
  unfolding call_get_customer_history_def dict_get_same[OF assms] ..

lemma undeclared_ignored:
  assumes "\<forall>k \<in> set (declared_properties (name request)). map_of args' k = map_of (arguments request) k"
  shows "call_tool (request\<lparr>arguments := args'\<rparr>) s = call_tool request s"
proof (cases "name request" rule: tool_cases)
  case get_customer
  with assms have "map_of args' ''customer_id'' = map_of (arguments request) ''customer_id''"
    by (simp add: declared_properties_simps)
  from call_get_customer_reads[OF this, of s] get_customer show ?thesis
    by (simp add: call_tool_def)
next
  case list_customers
  with assms have "map_of args' ''status'' = map_of (arguments request) ''status''"
    "map_of args' ''limit'' = map_of (arguments request) ''limit''"
    by (simp_all add: declared_properties_simps)
  from call_list_customers_reads[OF this, of s] list_customers show ?thesis
    by (simp add: call_tool_def)
next
  case update_customer
  with assms have "map_of args' ''customer_id'' = map_of (arguments request) ''customer_id''"
    "map_of args' ''data'' = map_of (arguments request) ''data''"
    by (simp_all add: declared_properties_simps)
  from call_update_customer_reads[OF this, of s] update_customer show ?thesis
    by (simp add: call_tool_def)
next
  case create_ticket
  with assms have "map_of args' ''customer_id'' = map_of (arguments request) ''customer_id''"
    "map_of args' ''issue'' = map_of (arguments request) ''issue''"
    "map_of args' ''priority'' = map_of (arguments request) ''priority''"
    by (simp_all add: declared_properties_simps)
  from call_create_ticket_reads[OF this, of s] create_ticket show ?thesis
    by (simp add: call_tool_def)
next
  case get_customer_history
  with assms have "map_of args' ''customer_id'' = map_of (arguments request) ''customer_id''"
    by (simp add: declared_properties_simps)
  from call_get_customer_history_reads[OF this, of s] get_customer_history show ?thesis
    by (simp add: call_tool_def)
next
  case unknown
  then show ?thesis
    by (simp add: registered_def TOOL_REGISTRY_def call_tool_def)
qed

lemma missing_data_is_empty:
  assumes "name request = ''update_customer''" "map_of (arguments request) ''data'' = None"
  shows "call_tool (request\<lparr>arguments := (''data'', JObj []) # arguments request\<rparr>) s = call_tool request s"
proof -
  have "dict_get ((''data'', JObj []) # arguments request) ''customer_id'' =
        dict_get (arguments request) ''customer_id''"
    by (simp add: dict_get_def)
  moreover have "dict_get ((''data'', JObj []) # arguments request) ''data'' = JObj []"
    "dict_get (arguments request) ''data'' = JNull"
    using assms(2) by (simp_all add: dict_get_def)
  ultimately have "call_update_customer ((''data'', JObj []) # arguments request) s =
                   call_update_customer (arguments request) s"
    unfolding call_update_customer_def by (simp only: Let_def truthy.simps) simp
  with assms(1) show ?thesis by (simp add: call_tool_def)
qed

text \<open>
  Claim C3, as amended. The dispatcher does not check the arguments against the schema of
  the tool; it coerces the arguments it reads. When \<^verbatim>\<open>customer_id\<close>, which four tools
  require, is missing or cannot be coerced to an integer, the invocation fails, and neither
  the store nor the queue changes; the same holds for a \<^verbatim>\<open>limit\<close> of
  \<^verbatim>\<open>list_customers\<close> that cannot be coerced. A missing \<^verbatim>\<open>data\<close> of
  \<^verbatim>\<open>update_customer\<close> is not rejected: it is the empty object. Arguments that the schema
  of the tool does not declare are ignored: two argument objects that agree on the declared
  arguments give the same outcome.
\<close>

theorem arguments_coerced_not_validated:
  "(''customer_id'' \<in> set (required_arguments (name request)) \<and>
      py_int (dict_get (arguments request) ''customer_id'') = Inl e
      \<longrightarrow> call_tool request s = (Inl e, s)) \<and>
   (name request = ''list_customers'' \<and>
      py_int (dict_get_default (arguments request) ''limit'' (JInt 20)) = Inl e
      \<longrightarrow> call_tool request s = (Inl e, s)) \<and>
   ((\<forall>k \<in> set (declared_properties (name request)). map_of args' k = map_of (arguments request) k)
      \<longrightarrow> call_tool (request\<lparr>arguments := args'\<rparr>) s = call_tool request s) \<and>
   (name request = ''update_customer'' \<and> map_of (arguments request) ''data'' = None
      \<longrightarrow> call_tool (request\<lparr>arguments := (''data'', JObj []) # arguments request\<rparr>) s =
          call_tool request s)"
  using customer_id_failure[of request e s] limit_failure[of request e s]
    undeclared_ignored[of request args' s] missing_data_is_empty[of request s]
  by blast

theorem arguments_coerced_not_validated_witness:
  "call_tool \<lparr>name = ''get_customer'', arguments = []\<rparr> seed_server = (Inl TypeError, seed_server) \<and>
   call_tool \<lparr>name = ''list_customers'', arguments = [(''limit'', JStr ''many'')]\<rparr> seed_server =
     (Inl ValueError, seed_server) \<and>
   call_tool \<lparr>name = ''get_customer'',
              arguments = [(''verbose'', JBool True), (''customer_id'', JInt 1)]\<rparr> seed_server =
     call_tool \<lparr>name = ''get_customer'', arguments = [(''customer_id'', JInt 1)]\<rparr> seed_server \<and>
   call_tool \<lparr>name = ''update_customer'',
              arguments = [(''data'', JObj []), (''customer_id'', JInt 1)]\<rparr> seed_server =
     call_tool \<lparr>name = ''update_customer'', arguments = [(''customer_id'', JInt 1)]\<rparr> seed_server"
proof -
  have a: "''customer_id'' \<in> set (required_arguments (name \<lparr>name = ''get_customer'', arguments = []\<rparr>))"
      "py_int (dict_get (arguments \<lparr>name = ''get_customer'', arguments = []\<rparr>) ''customer_id'') = Inl TypeError"
    by (simp_all add: customer_id_required dict_get_def)
  have b: "py_int (dict_get_default [(''limit'', JStr ''many'')] ''limit'' (JInt 20)) = Inl ValueError"
    by code_simp
  have c: "\<forall>k \<in> set (declared_properties ''get_customer'').
             map_of [(''verbose'', JBool True), (''customer_id'', JInt 1)] k =
             map_of [(''customer_id'', JInt 1)] k"
    by (simp add: declared_properties_simps)
  note first = arguments_coerced_not_validated[of "\<lparr>name = ''get_customer'', arguments = []\<rparr>"
      TypeError seed_server "[]", THEN conjunct1]
  note second = arguments_coerced_not_validated[of
      "\<lparr>name = ''list_customers'', arguments = [(''limit'', JStr ''many'')]\<rparr>"
      ValueError seed_server "[]", THEN conjunct2, THEN conjunct1]
  note third = arguments_coerced_not_validated[of
      "\<lparr>name = ''get_customer'', arguments = [(''customer_id'', JInt 1)]\<rparr>"
      TypeError seed_server "[(''verbose'', JBool True), (''customer_id'', JInt 1)]",
      THEN conjunct2, THEN conjunct2, THEN conjunct1]
  note fourth = arguments_coerced_not_validated[of
      "\<lparr>name = ''update_customer'', arguments = [(''customer_id'', JInt 1)]\<rparr>"
      TypeError seed_server "[]", THEN conjunct2, THEN conjunct2, THEN conjunct2]
  have 1: "call_tool \<lparr>name = ''get_customer'', arguments = []\<rparr> seed_server = (Inl TypeError, seed_server)"
    using first a by blast
  have 2: "call_tool \<lparr>name = ''list_customers'', arguments = [(''limit'', JStr ''many'')]\<rparr> seed_server =
     (Inl ValueError, seed_server)"
    using second b by simp
  have 3: "call_tool \<lparr>name = ''get_customer'',
              arguments = [(''verbose'', JBool True), (''customer_id'', JInt 1)]\<rparr> seed_server =
     call_tool \<lparr>name = ''get_customer'', arguments = [(''customer_id'', JInt 1)]\<rparr> seed_server"
    using third c by simp
  have 4: "call_tool \<lparr>name = ''update_customer'',
              arguments = [(''data'', JObj []), (''customer_id'', JInt 1)]\<rparr> seed_server =
     call_tool \<lparr>name = ''update_customer'', arguments = [(''customer_id'', JInt 1)]\<rparr> seed_server"
    using fourth by simp
  from 1 2 3 4 show ?thesis by blast
qed

text \<open>
  Claim C3 as stated does not hold: \<^verbatim>\<open>update_customer\<close> requires \<^verbatim>\<open>data\<close>, yet the
  invocation without it succeeds; and \<^verbatim>\<open>get_customer\<close> without its required
  \<^verbatim>\<open>customer_id\<close> fails with Python's \<^verbatim>\<open>TypeError\<close>, which is not an error response
  that names the argument.
\<close>

theorem required_arguments_counterexample:
  "registered ''update_customer'' \<and>
   ''data'' \<in> set (required_arguments ''update_customer'') \<and>
   map_of [(''customer_id'', JInt 1)] ''data'' = None \<and>
   call_tool \<lparr>name = ''update_customer'', arguments = [(''customer_id'', JInt 1)]\<rparr> seed_server =
     (Inr (JObj [(''result'',
        JObj [(''id'', JInt 1), (''name'', JStr ''Ana Customer''), (''email'', JStr ''ana@example.com''),
              (''status'', JStr ''active''), (''created_at'', JStr ''2024-01-01 09:00:00'')])]),
      seed_server\<lparr>event_queue :=
        [JObj [(''type'', JStr ''update''), (''tool'', JStr ''update_customer''),
               (''customer_id'', JInt 1)]]\<rparr>) \<and>
   registered ''get_customer'' \<and>
   ''customer_id'' \<in> set (required_arguments ''get_customer'') \<and>
   call_tool \<lparr>name = ''get_customer'', arguments = []\<rparr> seed_server = (Inl TypeError, seed_server)"
  by code_simp

subsection \<open>Runs of the process\<close>








lemma generator_takes:
  assumes "client \<in> set (map fst (received p))" and "event_queue (srv p) = event # rest"
  shows "event_queue (srv (generator client p)) = rest"
    and "frames_of client (generator client p) = frames_of client p @ [frame event]"
    and "other \<noteq> client \<Longrightarrow> frames_of other (generator client p) = frames_of other p"
    and "map fst (received (generator client p)) = map fst (received p)"
proof -
  have upd: "\<And>xs. client \<in> set (map fst xs) \<Longrightarrow>
      map_of (map (\<lambda>cf. if fst cf = client then (fst cf, snd cf @ [frame event]) else cf) xs) client =
      map_option (\<lambda>fs. fs @ [frame event]) (map_of xs client)"
  proof -
    fix xs :: "(nat \<times> json list) list"
    show "client \<in> set (map fst xs) \<Longrightarrow>
      map_of (map (\<lambda>cf. if fst cf = client then (fst cf, snd cf @ [frame event]) else cf) xs) client =
      map_option (\<lambda>fs. fs @ [frame event]) (map_of xs client)"
      by (induction xs) auto
  qed
  have keep: "\<And>xs. other \<noteq> client \<Longrightarrow>
      map_of (map (\<lambda>cf. if fst cf = client then (fst cf, snd cf @ [frame event]) else cf) xs) other =
      map_of xs other"
  proof -
    fix xs :: "(nat \<times> json list) list"
    show "other \<noteq> client \<Longrightarrow>
      map_of (map (\<lambda>cf. if fst cf = client then (fst cf, snd cf @ [frame event]) else cf) xs) other =
      map_of xs other"
      by (induction xs) auto
  qed
  from assms show "event_queue (srv (generator client p)) = rest"
    by (simp add: generator_def take_event_def)
  from assms(1) obtain fs where fs: "map_of (received p) client = Some fs"
    by (metis map_of_eq_None_iff not_Some_eq set_map)
  from assms upd[OF assms(1)] fs show "frames_of client (generator client p) = frames_of client p @ [frame event]"
    by (simp add: generator_def take_event_def frames_of_def)
  from assms show "map fst (received (generator client p)) = map fst (received p)"
    by (simp add: generator_def take_event_def comp_def if_distrib[of fst] cong: if_cong)
  assume "other \<noteq> client"
  from keep[OF this] assms show "frames_of other (generator client p) = frames_of other p"
    by (simp add: generator_def take_event_def frames_of_def)
qed






section \<open>Status updates of a task\<close>

text \<open>
  Claim C9. The status-update event produced for a task and a new status carries that
  status, and its flag \<^verbatim>\<open>final\<close> is true exactly when the state of the new status is
  \<^verbatim>\<open>completed\<close> or \<^verbatim>\<open>canceled\<close>: no produced event is final with the state
  \<^verbatim>\<open>running\<close>, and none is not final with a terminal state. The producer is the one
  modelled from the specification; the class \<^verbatim>\<open>TaskStatusUpdateEvent\<close> of
  \<^verbatim>\<open>sdk/types.py\<close> itself holds \<^verbatim>\<open>final\<close> as a field of its own.
\<close>

theorem final_iff_terminal:
  "status (status_update_event task_id context_id new_status) = new_status \<and>
   final (status_update_event task_id context_id new_status) =
     (state new_status = completed \<or> state new_status = canceled) \<and>
   \<not> (final (status_update_event task_id context_id new_status) \<and>
        state (status (status_update_event task_id context_id new_status)) = running) \<and>
   \<not> (\<not> final (status_update_event task_id context_id new_status) \<and>
        state (status (status_update_event task_id context_id new_status)) \<in> {completed, canceled})"
  by (cases "state new_status") (simp_all add: status_update_event_def)

theorem final_iff_terminal_witness:
  "final (status_update_event ''task-1'' ''ctx-1'' \<lparr>state = completed, message = None\<rparr>) \<and>
   final (status_update_event ''task-1'' ''ctx-1'' \<lparr>state = canceled, message = None\<rparr>) \<and>
   \<not> final (status_update_event ''task-1'' ''ctx-1'' \<lparr>state = running, message = None\<rparr>)"
  using final_iff_terminal[of "''task-1''" "''ctx-1''" "\<lparr>state = completed, message = None\<rparr>"]
    final_iff_terminal[of "''task-1''" "''ctx-1''" "\<lparr>state = canceled, message = None\<rparr>"]
    final_iff_terminal[of "''task-1''" "''ctx-1''" "\<lparr>state = running, message = None\<rparr>"]
  by simp

section \<open>Further properties of the store\<close>

lemma modify_customer_created_at:
  "modify_customer d cid changes = (r, d') \<Longrightarrow>
     map c_created_at (customers d') = map c_created_at (customers d)"
  by (auto simp: modify_customer_def Let_def set_column_created_at split: if_splits sum.splits)

lemma update_customer_created_at:
  "call_update_customer args s = (r, s') \<Longrightarrow>
     map c_created_at (customers (db s')) = map c_created_at (customers (db s))"
  unfolding call_update_customer_def update_customer_record_def
  by (auto simp: enqueue_event_def http_not_found_def Let_def
      split: sum.splits option.splits if_splits prod.splits json.splits
      dest!: modify_customer_created_at)

text \<open>
  Property X1. The foreign keys of the schema are an invariant of the dispatcher: if every
  ticket and every interaction belongs to a customer of the store before an invocation, the
  same holds after it, whether the invocation succeeds or fails.
\<close>

theorem foreign_keys_kept:
  assumes "call_tool request s = (r, s')" and "foreign_keys_ok (db s)"
  shows "foreign_keys_ok (db s')"
  using assms by (rule call_tool_preserves_foreign_keys)

theorem foreign_keys_kept_witness:
  "foreign_keys_ok (db seed_server) \<and>
   foreign_keys_ok (db (snd (call_tool
     \<lparr>name = ''create_ticket'',
       arguments = [(''customer_id'', JInt 1), (''issue'', JStr ''billing''),
                    (''priority'', JStr ''high''), (''status'', JStr ''closed'')]\<rparr> seed_server)))"
proof -
  have keys: "foreign_keys_ok (db seed_server)"
    by (simp add: seed_server_def seed_foreign_keys)
  from foreign_keys_kept[OF sample_create_ticket keys] keys sample_create_ticket
  show ?thesis by simp
qed

text \<open>
  Property X2. No invocation changes the id or the \<^verbatim>\<open>created_at\<close> timestamp of a customer,
  and none adds or removes a customer: the ids and the timestamps of the customer table,
  row by row, are the same before and after.
\<close>

theorem customer_identity_kept:
  assumes "call_tool request s = (r, s')"
  shows "map c_id (customers (db s')) = map c_id (customers (db s)) \<and>
         map c_created_at (customers (db s')) = map c_created_at (customers (db s))"
proof -
  consider (a) "call_get_customer (arguments request) s = (r, s')"
    | (b) "call_list_customers (arguments request) s = (r, s')"
    | (c) "call_update_customer (arguments request) s = (r, s')"
    | (d) "call_create_ticket (arguments request) s = (r, s')"
    | (e) "call_get_customer_history (arguments request) s = (r, s')"
    | (f) "s' = s"
    using assms by (auto simp: call_tool_def Let_def split: if_splits)
  then have "map c_created_at (customers (db s')) = map c_created_at (customers (db s))"
  proof cases
    case a
    from get_customer_db[OF this] show ?thesis by simp
  next
    case b
    from list_customers_db[OF this] show ?thesis by simp
  next
    case c
    from update_customer_created_at[OF this] show ?thesis .
  next
    case d
    from create_ticket_db[OF this] show ?thesis by simp
  next
    case e
    from get_customer_history_db[OF this] show ?thesis by simp
  next
    case f
    then show ?thesis by simp
  qed
  with call_tool_db[OF assms] show ?thesis by simp
qed

theorem customer_identity_kept_witness:
  "map c_id (customers (db (snd (call_tool
      \<lparr>name = ''update_customer'',
        arguments = [(''customer_id'', JInt 1),
                     (''data'', JObj [(''name'', JStr ''Ana Client''), (''nickname'', JStr ''Annie'')])]\<rparr>
      seed_server)))) = [1, 2, 3] \<and>
   map c_created_at (customers (db (snd (call_tool
      \<lparr>name = ''update_customer'',
        arguments = [(''customer_id'', JInt 1),
                     (''data'', JObj [(''name'', JStr ''Ana Client''), (''nickname'', JStr ''Annie'')])]\<rparr>
      seed_server)))) = map c_created_at (customers (db seed_server))"
proof -
  have "map c_id (customers (db seed_server)) = [1, 2, 3]"
    by (simp add: seed_server_def seed_store_def)
  with customer_identity_kept[OF sample_update] sample_update show ?thesis
    by simp
qed

section \<open>A reader that waits\<close>

lemma take_event_generator:
  "client \<in> set (map fst (received p)) \<Longrightarrow> event_queue (srv p) \<noteq> [] \<Longrightarrow>
   take_event client p = generator client p"
  by (simp add: generator_def)

text \<open>
  Property X3. A connected client whose generator asks for its next event while the queue
  is empty, and no other reader waits, is sent the event of the next invocation that
  succeeds, as soon as it is published: the event does not stay in the queue, the client
  waits no longer, and no other client is sent anything.
\<close>

theorem waiting_reader_served:
  assumes "client \<in> set (map fst (received p))"
    and "event_queue (srv p) = []" and "waiting p = []"
    and "call_tool request (srv p) = (Inr payload, s')"
  shows "\<exists>event. event_queue s' = [event] \<and>
           frames_of client (run [Next client, Invoke request] p) =
             frames_of client p @ [frame event] \<and>
           event_queue (srv (run [Next client, Invoke request] p)) = [] \<and>
           waiting (run [Next client, Invoke request] p) = [] \<and>
           (\<forall>other. other \<noteq> client \<longrightarrow>
              frames_of other (run [Next client, Invoke request] p) = frames_of other p)"
proof -
  from call_tool_effect[OF assms(4)] assms(2) obtain event where event: "event_queue s' = [event]"
    by (auto simp: emitted_def)
  let ?p1 = "p\<lparr>waiting := [client]\<rparr>"
  let ?p2 = "?p1\<lparr>srv := s'\<rparr>"
  have asked: "generator client p = ?p1"
    using assms(1,2,3) by (simp add: generator_def)
  have connected: "client \<in> set (map fst (received ?p2))"
    using assms(1) by simp
  have queue: "event_queue (srv ?p2) = event # []"
    using event by simp
  have "wakeup_next ?p2 = take_event client ?p2"
    using assms(1) by (simp add: wakeup_next_def)
  also have "\<dots> = generator client ?p2"
    using connected queue by (intro take_event_generator) simp_all
  finally have woken: "wakeup_next ?p2 = generator client ?p2" .
  have "step ?p1 (Invoke request) = wakeup_next ?p2"
    using assms(4) by simp
  with asked woken have total: "run [Next client, Invoke request] p = generator client ?p2"
    by (simp add: run_def del: step.simps(1)) 
  note g = generator_takes[OF connected queue]
  have same: "\<And>c. frames_of c ?p2 = frames_of c p"
    by (simp add: frames_of_def)
  have "waiting (generator client ?p2) = []"
    using connected queue by (simp add: generator_def take_event_def)
  with g(1,2) g(3) same event show ?thesis
    unfolding total by auto
qed

theorem waiting_reader_served_witness:
  "0 \<in> set (map fst (received (run [Connect 0, Connect 1] seed_process))) \<and>
   frames_of 0 (run [Next 0, Invoke \<lparr>name = ''get_customer'', arguments = [(''customer_id'', JInt 1)]\<rparr>]
                  (run [Connect 0, Connect 1] seed_process)) =
     [frame (JObj [(''type'', JStr ''audit''), (''tool'', JStr ''get_customer''),
                   (''customer_id'', JInt 1)])] \<and>
   frames_of 1 (run [Next 0, Invoke \<lparr>name = ''get_customer'', arguments = [(''customer_id'', JInt 1)]\<rparr>]
                  (run [Connect 0, Connect 1] seed_process)) = [] \<and>
   event_queue (srv (run [Next 0, Invoke \<lparr>name = ''get_customer'', arguments = [(''customer_id'', JInt 1)]\<rparr>]
                  (run [Connect 0, Connect 1] seed_process))) = []"
proof -
  let ?p = "run [Connect 0, Connect 1] seed_process"
  let ?get = "\<lparr>name = ''get_customer'', arguments = [(''customer_id'', JInt 1)]\<rparr>"
  let ?event = "JObj [(''type'', JStr ''audit''), (''tool'', JStr ''get_customer''),
                   (''customer_id'', JInt 1)]"
  have p: "0 \<in> set (map fst (received ?p))" "event_queue (srv ?p) = []" "waiting ?p = []"
      "frames_of 0 ?p = []" "frames_of 1 ?p = []"
    by code_simp+
  have "srv ?p = seed_server"
    by code_simp
  with sample_get_customer obtain payload where
    call: "call_tool ?get (srv ?p) = (Inr payload, seed_server\<lparr>event_queue := [?event]\<rparr>)"
    by (simp add: enqueue_event_def seed_server_def)
  from waiting_reader_served[OF p(1,2,3) call] obtain event where
      "event_queue (seed_server\<lparr>event_queue := [?event]\<rparr>) = [event]"
      "frames_of 0 (run [Next 0, Invoke ?get] ?p) = frames_of 0 ?p @ [frame event]"
      "event_queue (srv (run [Next 0, Invoke ?get] ?p)) = []"
      "frames_of 1 (run [Next 0, Invoke ?get] ?p) = frames_of 1 ?p"
    by auto
  with p show ?thesis by simp
qed

end
